theory Spec2Isabelle
  imports Main
begin

section \<open>JavaScript strings\<close>

text \<open>
  A JavaScript string is a sequence of UTF-16 code units. The worker compares, slices and
  concatenates strings, and hands one to \<^verbatim>\<open>btoa\<close>, which refuses every code unit above
  255: so a string is modelled as the list of its code units, not as a list of bytes.
  \<open>js\<close> embeds an ASCII literal of the source.
\<close>

type_synonym jstring = "nat list"

definition js :: "string \<Rightarrow> jstring" where
  "js s = map of_char s"

text \<open>\<^verbatim>\<open>s.startsWith(p)\<close>\<close>

fun startsWith :: "jstring \<Rightarrow> jstring \<Rightarrow> bool" where
  "startsWith s [] = True"
| "startsWith [] (p # ps) = False"
| "startsWith (c # cs) (p # ps) = (c = p \<and> startsWith cs ps)"

text \<open>
  \<^verbatim>\<open>s.replace(pat, '')\<close> with a string pattern: the first occurrence of \<open>pat\<close> is
  removed, and a string without the pattern is returned as it is.
\<close>

fun replace_by_empty :: "jstring \<Rightarrow> jstring \<Rightarrow> jstring" where
  "replace_by_empty [] pat = []"
| "replace_by_empty (c # cs) pat =
     (if startsWith (c # cs) pat then drop (length pat) (c # cs)
      else c # replace_by_empty cs pat)"

text \<open>The decimal text of a non-negative integer, as a template literal renders it.\<close>

function show_nat :: "nat \<Rightarrow> jstring" where
  "show_nat n = (if n < 10 then [48 + n] else show_nat (n div 10) @ [48 + n mod 10])"
  by pat_completeness auto
termination
  by (relation "measure id") auto

declare show_nat.simps [simp del]

section \<open>Faults\<close>

text \<open>
  An exception that leaves \<^verbatim>\<open>handleFetch\<close> is a fault: the hosting transport answers
  for it, not the worker.
\<close>

datatype fault =
    InvalidCharacterError
  | SyntaxError
  | TypeError
  | CollaboratorError jstring

section \<open>\<^verbatim>\<open>btoa\<close>\<close>

text \<open>
  \<^verbatim>\<open>btoa\<close> reads each code unit of its argument as one byte and returns the base64
  text of these bytes; it throws \<^verbatim>\<open>InvalidCharacterError\<close> when a code unit is above 255.
\<close>

definition b64_alphabet :: jstring where
  "b64_alphabet = js ''ABCDEFGHIJKLMNOPQRSTUVWXYZabcdefghijklmnopqrstuvwxyz0123456789+/''"

definition b64_digit :: "nat \<Rightarrow> nat" where
  "b64_digit n = b64_alphabet ! (n mod 64)"

fun base64 :: "nat list \<Rightarrow> jstring" where
  "base64 [] = []"
| "base64 [a] = [b64_digit (a div 4), b64_digit ((a mod 4) * 16), 61, 61]"
| "base64 [a, b] =
     [b64_digit (a div 4), b64_digit ((a mod 4) * 16 + b div 16),
      b64_digit ((b mod 16) * 4), 61]"
| "base64 (a # b # c # r) =
     [b64_digit (a div 4), b64_digit ((a mod 4) * 16 + b div 16),
      b64_digit ((b mod 16) * 4 + c div 64), b64_digit (c mod 64)] @ base64 r"

definition latin1 :: "jstring \<Rightarrow> bool" where
  "latin1 s = list_all (\<lambda>c. c \<le> 255) s"

definition btoa :: "jstring \<Rightarrow> fault + jstring" where
  "btoa s = (if latin1 s then Inr (base64 s) else Inl InvalidCharacterError)"

section \<open>JSON values and \<^verbatim>\<open>JSON.stringify\<close>\<close>

text \<open>
  The values \<^verbatim>\<open>request.json()\<close> yields and \<^verbatim>\<open>JSON.stringify\<close> takes. An object is the
  list of its members in enumeration order. \<open>None\<close> of \<open>json option\<close> is
  \<^verbatim>\<open>undefined\<close>.

  A number is held as the decimal JavaScript prints it from: \<open>JNum m e\<close> is the number
  whose shortest decimal that reads back as the same number is \<open>m \<times> 10\<^sup>e\<close>. Every
  finite number has one such decimal (integers and fractions alike), and the text of a
  number depends on nothing else.
\<close>

datatype json =
    JNull
  | JBool bool
  | JNum int int
  | JStr jstring
  | JArr "json list"
  | JObj "(jstring \<times> json) list"

text \<open>
  \<^verbatim>\<open>Number::toString\<close>: with \<open>s\<close> the digits of the decimal without trailing zeros,
  \<open>k\<close> their count and \<open>n\<close> the position of the decimal point after the first
  digit of \<open>s\<close>, the number is written in plain decimal when \<open>-5 \<le> n \<le> 21\<close> and
  with an exponent otherwise (so \<open>10\<^sup>2\<^sup>1\<close> is \<^verbatim>\<open>1e+21\<close>).
\<close>

function strip_zeros :: "nat \<Rightarrow> int \<Rightarrow> nat \<times> int" where
  "strip_zeros s e =
     (if s \<noteq> 0 \<and> s mod 10 = 0 then strip_zeros (s div 10) (e + 1) else (s, e))"
  by pat_completeness auto
termination
  by (relation "measure (\<lambda>(s, e). s)") auto

declare strip_zeros.simps [simp del]

definition positive_text :: "nat \<Rightarrow> int \<Rightarrow> jstring" where
  "positive_text s e =
     (let digits = show_nat s; k = int (length digits); n = k + e in
      if - 5 \<le> n \<and> n \<le> 21 then
        (if k \<le> n then digits @ replicate (nat (n - k)) 48
         else if 0 < n then take (nat n) digits @ 46 # drop (nat n) digits
         else js ''0.'' @ replicate (nat (- n)) 48 @ digits)
      else
        (let exponent = 101 # (if n - 1 < 0 then 45 else 43) # show_nat (nat \<bar>n - 1\<bar>) in
         if k = 1 then digits @ exponent
         else take 1 digits @ 46 # drop 1 digits @ exponent))"

definition number_text :: "int \<Rightarrow> int \<Rightarrow> jstring" where
  "number_text m e =
     (if m = 0 then js ''0''
      else
        let (s, e') = strip_zeros (nat \<bar>m\<bar>) e in
        if m < 0 then 45 # positive_text s e' else positive_text s e')"

definition hex_digit :: "nat \<Rightarrow> nat" where
  "hex_digit d = js ''0123456789abcdef'' ! (d mod 16)"

text \<open>\<^verbatim>\<open>\uXXXX\<close>, four lower-case hexadecimal digits.\<close>

definition unicode_escape :: "nat \<Rightarrow> jstring" where
  "unicode_escape c =
     [92, 117, hex_digit (c div 4096), hex_digit (c div 256), hex_digit (c div 16), hex_digit c]"

definition high_surrogate :: "nat \<Rightarrow> bool" where
  "high_surrogate c = (55296 \<le> c \<and> c \<le> 56319)"

definition low_surrogate :: "nat \<Rightarrow> bool" where
  "low_surrogate c = (56320 \<le> c \<and> c \<le> 57343)"

text \<open>
  One code unit inside a JSON string: the two-character escapes for backspace, tab, line
  feed, form feed, carriage return, the double quote and the backslash; \<^verbatim>\<open>\uXXXX\<close> for
  any other control character and for a surrogate that stands alone; the unit itself
  otherwise.
\<close>

definition escape_unit :: "nat \<Rightarrow> jstring" where
  "escape_unit c =
     (if c = 8 then [92, 98]
      else if c = 9 then [92, 116]
      else if c = 10 then [92, 110]
      else if c = 12 then [92, 102]
      else if c = 13 then [92, 114]
      else if c = 34 then [92, 34]
      else if c = 92 then [92, 92]
      else if c < 32 \<or> high_surrogate c \<or> low_surrogate c then unicode_escape c
      else [c])"

fun quote_units :: "jstring \<Rightarrow> jstring" where
  "quote_units [] = []"
| "quote_units [c] = escape_unit c"
| "quote_units (c # d # ds) =
     (if high_surrogate c \<and> low_surrogate d then c # d # quote_units ds
      else escape_unit c @ quote_units (d # ds))"

definition quote :: "jstring \<Rightarrow> jstring" where
  "quote s = 34 # quote_units s @ [34]"

fun join_comma :: "jstring list \<Rightarrow> jstring" where
  "join_comma [] = []"
| "join_comma [x] = x"
| "join_comma (x # y # ys) = x @ 44 # join_comma (y # ys)"

fun JSON_stringify :: "json \<Rightarrow> jstring" where
  "JSON_stringify JNull = js ''null''"
| "JSON_stringify (JBool b) = (if b then js ''true'' else js ''false'')"
| "JSON_stringify (JNum m e) = number_text m e"
| "JSON_stringify (JStr s) = quote s"
| "JSON_stringify (JArr xs) = 91 # join_comma (map JSON_stringify xs) @ [93]"
| "JSON_stringify (JObj ms) =
     123 # join_comma (map (\<lambda>m. quote (fst m) @ 58 # JSON_stringify (snd m)) ms) @ [125]"

text \<open>\<^verbatim>\<open>JSON.stringify(v)\<close> of a value that may be \<^verbatim>\<open>undefined\<close>, which it returns as it is.\<close>

definition stringify :: "json option \<Rightarrow> jstring option" where
  "stringify v = map_option JSON_stringify v"

text \<open>
  An object literal whose member values may be \<^verbatim>\<open>undefined\<close>:
  \<^verbatim>\<open>JSON.stringify\<close> leaves such members out.
\<close>

fun object_literal :: "(jstring \<times> json option) list \<Rightarrow> (jstring \<times> json) list" where
  "object_literal [] = []"
| "object_literal ((k, None) # ms) = object_literal ms"
| "object_literal ((k, Some v) # ms) = (k, v) # object_literal ms"

text \<open>
  The property \<open>k\<close> of a parsed JSON value, for the names the worker destructures
  (\<^verbatim>\<open>key\<close>, \<^verbatim>\<open>value\<close>, \<^verbatim>\<open>sql\<close>, \<^verbatim>\<open>params\<close>): an object's member, and
  \<^verbatim>\<open>undefined\<close> on anything else.
\<close>

fun property :: "json \<Rightarrow> jstring \<Rightarrow> json option" where
  "property (JObj ms) k = map_of ms k"
| "property v k = None"

section \<open>Configuration, requests and responses\<close>

text \<open>
  The two environment strings. Either may be unset (\<open>None\<close>): the worker tests the
  password for truthiness and interpolates the user name into a template literal.
\<close>

record env =
  SERVER_USERNAME :: "jstring option"
  SERVER_PASSWORD :: "jstring option"

text \<open>An uploaded \<^verbatim>\<open>File\<close>: its name, its media type and its bytes.\<close>

record jsfile =
  file_name :: jstring
  file_type :: jstring
  file_bytes :: "nat list"

datatype form_value = FormString jstring | FormFile jsfile

text \<open>
  What the body of a request parses to: \<^verbatim>\<open>request.json()\<close> succeeds on a JSON body
  only and \<^verbatim>\<open>request.formData()\<close> on a form body only; each rejects otherwise.
\<close>

datatype body =
    JsonBody json
  | FormBody "(jstring \<times> form_value) list"
  | OtherBody

text \<open>
  A request as the worker reads it: \<^verbatim>\<open>request.method\<close>, the \<^verbatim>\<open>pathname\<close> of
  \<^verbatim>\<open>new URL(request.url)\<close> (the path as the URL parser serialises it, which
  \<open>url_pathname\<close> below computes from the path a client writes; the worker never
  percent-decodes it), \<^verbatim>\<open>request.headers.get('Authorization')\<close> and the body.
\<close>

record request =
  req_method :: jstring
  req_pathname :: jstring
  req_authorization :: "jstring option"
  req_body :: body

datatype payload = Text jstring | Bytes "nat list"

text \<open>
  A response: the status (200 unless the source sets one), the headers the source sets
  (names in lower case, as a \<^verbatim>\<open>Headers\<close> object keeps them) and the body.
\<close>

record response =
  status :: nat
  headers :: "(jstring \<times> jstring) list"
  payload :: payload

definition json_response :: "nat \<Rightarrow> jstring \<Rightarrow> response" where
  "json_response st b =
     \<lparr>status = st, headers = [(js ''content-type'', js ''application/json'')], payload = Text b\<rparr>"

definition text_response :: "nat \<Rightarrow> jstring \<Rightarrow> response" where
  "text_response st b = \<lparr>status = st, headers = [], payload = Text b\<rparr>"

definition request_json :: "request \<Rightarrow> fault + json" where
  "request_json r = (case req_body r of JsonBody j \<Rightarrow> Inr j | _ \<Rightarrow> Inl SyntaxError)"

definition request_formData :: "request \<Rightarrow> fault + (jstring \<times> form_value) list" where
  "request_formData r = (case req_body r of FormBody f \<Rightarrow> Inr f | _ \<Rightarrow> Inl TypeError)"

section \<open>The collaborators\<close>

text \<open>
  The key-value namespace and the object bucket are in-memory stores (a map from keys to
  what was put); the limits and the availability of the hosted services are not in the
  source. An object keeps its bytes, its HTTP metadata (of which the model has the
  content type, the one field the worker sets) and the entity tag the bucket computed.
\<close>

record r2object =
  object_body :: "nat list"
  contentType :: "jstring option"
  httpEtag :: jstring

text \<open>\<^verbatim>\<open>object.writeHttpMetadata(headers)\<close>: the content type, when the object has one.\<close>

definition writeHttpMetadata :: "r2object \<Rightarrow> (jstring \<times> jstring) list \<Rightarrow> (jstring \<times> jstring) list" where
  "writeHttpMetadata object hs =
     (case contentType object of None \<Rightarrow> hs | Some t \<Rightarrow> hs @ [(js ''content-type'', t)])"

text \<open>
  The state the bindings of the worker reach: \<^verbatim>\<open>env.STORAGE\<close>, \<^verbatim>\<open>env.FILES\<close>,
  \<^verbatim>\<open>env.DB\<close> (a database of any type \<open>'db\<close>) and the clock \<^verbatim>\<open>Date.now()\<close> reads.
\<close>

record 'db world =
  STORAGE :: "jstring \<rightharpoonup> jstring"
  FILES :: "jstring \<rightharpoonup> r2object"
  DB :: 'db
  now :: nat

text \<open>
  What the platform computes and the source does not define.
  \<open>d1_all db sql params\<close> is the outcome of
  \<^verbatim>\<open>env.DB.prepare(sql).bind(...params).all()\<close>: the message of the error it throws, or
  the result set, and the database afterwards. \<open>d1_exec db text\<close> is the outcome of
  \<^verbatim>\<open>env.DB.exec(text)\<close>: the message of an error if it throws, and the database afterwards.
  \<open>r2_etag\<close> is the entity tag the bucket gives to the bytes of an object.
  \<open>kv_put_other store key text\<close> is what \<^verbatim>\<open>env.STORAGE.put(key, text)\<close> does when the
  key is no string or the text is \<^verbatim>\<open>undefined\<close>: the binding may refuse the call or
  coerce its arguments.
\<close>

record 'db platform =
  d1_all :: "'db \<Rightarrow> json option \<Rightarrow> json \<Rightarrow> (jstring + json) \<times> 'db"
  d1_exec :: "'db \<Rightarrow> jstring \<Rightarrow> jstring option \<times> 'db"
  r2_etag :: "nat list \<Rightarrow> jstring"
  kv_put_other ::
    "(jstring \<rightharpoonup> jstring) \<Rightarrow> json option \<Rightarrow> jstring option \<Rightarrow> fault + (jstring \<rightharpoonup> jstring)"

text \<open>
  \<^verbatim>\<open>env.STORAGE.put(key, text)\<close>: a string stored under a string key.
\<close>

definition kv_put ::
  "'db platform \<Rightarrow> (jstring \<rightharpoonup> jstring) \<Rightarrow> json option \<Rightarrow> jstring option \<Rightarrow>
   fault + (jstring \<rightharpoonup> jstring)" where
  "kv_put P store key v =
     (case key of
        Some (JStr k) \<Rightarrow>
          (case v of Some t \<Rightarrow> Inr (store(k \<mapsto> t)) | None \<Rightarrow> kv_put_other P store key v)
      | _ \<Rightarrow> kv_put_other P store key v)"

section \<open>Authentication\<close>

text \<open>A value interpolated into a template literal.\<close>

definition template :: "jstring option \<Rightarrow> jstring" where
  "template v = (case v of None \<Rightarrow> js ''undefined'' | Some s \<Rightarrow> s)"

text \<open>\<^verbatim>\<open>!password\<close>: unset or empty.\<close>

definition falsy :: "jstring option \<Rightarrow> bool" where
  "falsy v = (case v of None \<Rightarrow> True | Some s \<Rightarrow> s = [])"

definition challenge :: response where
  "challenge =
     \<lparr>status = 401,
      headers = [(js ''www-authenticate'', js ''Basic realm='' @ 34 # js ''Agent'' @ [34])],
      payload = Text (js ''Unauthorized'')\<rparr>"

text \<open>
  \<^verbatim>\<open>verifyBasicAuth\<close> (lines 3-27 of \<^verbatim>\<open>src/index.ts\<close>, the same in every variant):
  \<open>Inr None\<close> is the source's \<^verbatim>\<open>null\<close> (the request may pass),
  \<open>Inr (Some r)\<close> the response that rejects it, \<open>Inl\<close> the exception of \<^verbatim>\<open>btoa\<close>.
\<close>

definition verifyBasicAuth :: "env \<Rightarrow> request \<Rightarrow> fault + response option" where
  "verifyBasicAuth e request =
     (let username = SERVER_USERNAME e; password = SERVER_PASSWORD e in
      if falsy password then Inr None
      else
        case req_authorization request of
          None \<Rightarrow> Inr (Some challenge)
        | Some authorization \<Rightarrow>
            if \<not> startsWith authorization (js ''Basic '') then Inr (Some challenge)
            else
              (case btoa (template username @ js '':'' @ template password) of
                 Inl f \<Rightarrow> Inl f
               | Inr expected \<Rightarrow>
                   let provided = drop 6 authorization in
                   if provided \<noteq> expected then Inr (Some (text_response 401 (js ''Unauthorized'')))
                   else Inr None))"

section \<open>The routes\<close>

type_synonym 'db outcome = "(fault + response) \<times> 'db world"

text \<open>
  \<^verbatim>\<open>POST /api/kv\<close> (lines 50-56 of \<^verbatim>\<open>src/index.ts\<close>, 182-188 of the full variant):
  the body is destructured into \<^verbatim>\<open>key\<close> and \<^verbatim>\<open>value\<close>
  (destructuring \<^verbatim>\<open>null\<close> throws), the value is written as its JSON text, and the
  answer echoes the key.
\<close>

definition kv_post :: "'db platform \<Rightarrow> 'db world \<Rightarrow> request \<Rightarrow> 'db outcome" where
  "kv_post P w request =
     (case request_json request of
        Inl f \<Rightarrow> (Inl f, w)
      | Inr b \<Rightarrow>
          if b = JNull then (Inl TypeError, w)
          else
            let key = property b (js ''key''); value = property b (js ''value'') in
            (case kv_put P (STORAGE w) key (stringify value) of
               Inl f \<Rightarrow> (Inl f, w)
             | Inr store \<Rightarrow>
                 (Inr (json_response 200 (JSON_stringify (JObj (object_literal
                    [(js ''success'', Some (JBool True)), (js ''key'', key)])))),
                  w\<lparr>STORAGE := store\<rparr>)))"

text \<open>
  \<^verbatim>\<open>GET /api/kv/:key\<close> (lines 58-67 of \<^verbatim>\<open>src/index.ts\<close>, 190-199 of the full variant)
  and \<^verbatim>\<open>GET /api/store/:key\<close> (lines 416-425, the smallest variant): the key
  is the path with the route's prefix removed; \<^verbatim>\<open>!value\<close> holds of a missing key and
  of an empty text.
\<close>

definition kv_get :: "jstring \<Rightarrow> 'db world \<Rightarrow> request \<Rightarrow> 'db outcome" where
  "kv_get pre w request =
     (let key = replace_by_empty (req_pathname request) pre in
      case STORAGE w key of
        None \<Rightarrow> (Inr (text_response 404 (js ''Not found'')), w)
      | Some value \<Rightarrow>
          if value = [] then (Inr (text_response 404 (js ''Not found'')), w)
          else (Inr (json_response 200 value), w))"

text \<open>
  \<^verbatim>\<open>POST /api/files\<close> (lines 202-221 of the full variant):
  \<^verbatim>\<open>formData.get('file')\<close> is the first entry of that name. An
  entry that is a non-empty string passes the test \<^verbatim>\<open>!file\<close> and has no
  \<^verbatim>\<open>stream\<close> method, so the call throws.
\<close>

definition files_post :: "'db platform \<Rightarrow> 'db world \<Rightarrow> request \<Rightarrow> 'db outcome" where
  "files_post P w request =
     (case request_formData request of
        Inl f \<Rightarrow> (Inl f, w)
      | Inr formData \<Rightarrow>
          (case map_of formData (js ''file'') of
             None \<Rightarrow> (Inr (text_response 400 (js ''No file provided'')), w)
           | Some (FormString s) \<Rightarrow>
               if s = [] then (Inr (text_response 400 (js ''No file provided'')), w)
               else (Inl TypeError, w)
           | Some (FormFile file) \<Rightarrow>
               let key = js ''uploads/'' @ show_nat (now w) @ js ''-'' @ file_name file in
               (Inr (json_response 200 (JSON_stringify (JObj
                  [(js ''success'', JBool True), (js ''key'', JStr key),
                   (js ''url'', JStr (js ''/api/files/'' @ key))]))),
                w\<lparr>FILES := (FILES w)(key \<mapsto>
                   \<lparr>object_body = file_bytes file, contentType = Some (file_type file),
                    httpEtag = r2_etag P (file_bytes file)\<rparr>)\<rparr>)))"

text \<open>
  \<^verbatim>\<open>GET /api/files/:key\<close> (lines 223-236 of the full variant): the metadata of the object is written to fresh headers,
  then the entity tag is set.
\<close>

definition files_get :: "'db world \<Rightarrow> request \<Rightarrow> 'db outcome" where
  "files_get w request =
     (let key = replace_by_empty (req_pathname request) (js ''/api/files/'') in
      case FILES w key of
        None \<Rightarrow> (Inr (text_response 404 (js ''File not found'')), w)
      | Some object \<Rightarrow>
          (Inr \<lparr>status = 200,
                headers = writeHttpMetadata object [] @ [(js ''etag'', httpEtag object)],
                payload = Bytes (object_body object)\<rparr>, w))"

text \<open>
  \<^verbatim>\<open>POST /api/db/query\<close> (lines 70-90 of \<^verbatim>\<open>src/index.ts\<close>, 239-259 of the full
  variant): \<^verbatim>\<open>params\<close> defaults to the empty array when the body has
  none; whatever the statement throws is caught and answered with status 400.
\<close>

definition db_query :: "'db platform \<Rightarrow> 'db world \<Rightarrow> request \<Rightarrow> 'db outcome" where
  "db_query P w request =
     (case request_json request of
        Inl f \<Rightarrow> (Inl f, w)
      | Inr b \<Rightarrow>
          if b = JNull then (Inl TypeError, w)
          else
            let sql = property b (js ''sql'');
                params = (case property b (js ''params'') of None \<Rightarrow> JArr [] | Some p \<Rightarrow> p)
            in
            (case d1_all P (DB w) sql params of
               (Inr result, db) \<Rightarrow>
                 (Inr (json_response 200 (JSON_stringify (JObj
                    [(js ''success'', JBool True), (js ''result'', result)]))),
                  w\<lparr>DB := db\<rparr>)
             | (Inl message, db) \<Rightarrow>
                 (Inr (json_response 400 (JSON_stringify (JObj
                    [(js ''success'', JBool False), (js ''error'', JStr message)]))),
                  w\<lparr>DB := db\<rparr>)))"

text \<open>The statement of \<^verbatim>\<open>POST /api/db/init\<close>, line by line.\<close>

definition init_sql :: jstring where
  "init_sql = concat (map (\<lambda>l. 10 # js l)
     [''      CREATE TABLE IF NOT EXISTS logs ('',
      ''        id INTEGER PRIMARY KEY AUTOINCREMENT,'',
      ''        level TEXT NOT NULL,'',
      ''        message TEXT NOT NULL,'',
      ''        created_at DATETIME DEFAULT CURRENT_TIMESTAMP'',
      ''      );'',
      ''      '',
      ''      CREATE TABLE IF NOT EXISTS users ('',
      ''        id INTEGER PRIMARY KEY AUTOINCREMENT,'',
      ''        username TEXT UNIQUE NOT NULL,'',
      ''        created_at DATETIME DEFAULT CURRENT_TIMESTAMP'',
      ''      );'',
      ''    ''])"

text \<open>
  \<^verbatim>\<open>POST /api/db/init\<close> (lines 92-115 of \<^verbatim>\<open>src/index.ts\<close>, 261-284 of the full
  variant): an error of \<^verbatim>\<open>exec\<close> is not caught.
\<close>

definition db_init :: "'db platform \<Rightarrow> 'db world \<Rightarrow> 'db outcome" where
  "db_init P w =
     (case d1_exec P (DB w) init_sql of
        (Some message, db) \<Rightarrow> (Inl (CollaboratorError message), w\<lparr>DB := db\<rparr>)
      | (None, db) \<Rightarrow>
          (Inr (json_response 200 (JSON_stringify (JObj
             [(js ''success'', JBool True), (js ''message'', JStr (js ''Database initialized''))]))),
           w\<lparr>DB := db\<rparr>))"

text \<open>
  \<^verbatim>\<open>POST /api/store\<close> (lines 407-414, the smallest variant): the whole body is stored under a key made
  from the clock.
\<close>

definition store_post :: "'db world \<Rightarrow> request \<Rightarrow> 'db outcome" where
  "store_post w request =
     (case request_json request of
        Inl f \<Rightarrow> (Inl f, w)
      | Inr data \<Rightarrow>
          let key = js ''data:'' @ show_nat (now w) in
          (Inr (json_response 200 (JSON_stringify (JObj
             [(js ''success'', JBool True), (js ''key'', JStr key)]))),
           w\<lparr>STORAGE := (STORAGE w)(key \<mapsto> JSON_stringify data)\<rparr>))"

section \<open>The dispatcher\<close>

text \<open>
  The repository holds three variants of \<^verbatim>\<open>handleFetch\<close> behind the same
  \<^verbatim>\<open>verifyBasicAuth\<close>: the full one (key-value store, object bucket and database;
  lines 161-310 of the listing that accompanies the read-me), the one of
  \<^verbatim>\<open>src/index.ts\<close> (key-value store and database; lines 29-135) and the smallest one
  (key-value store only; lines 388-438 of the listing). Each is the check of the credentials followed by its routes,
  tried in the order of the source.
\<close>

definition endpoint :: "string \<Rightarrow> string \<Rightarrow> string \<Rightarrow> json" where
  "endpoint m p d =
     JObj [(js ''method'', JStr (js m)), (js ''path'', JStr (js p)), (js ''desc'', JStr (js d))]"

definition status_body :: json where
  "status_body = JObj
     [(js ''status'', JStr (js ''running'')),
      (js ''version'', JStr (js ''free-tier'')),
      (js ''services'', JArr [JStr (js ''KV''), JStr (js ''R2''), JStr (js ''D1'')]),
      (js ''message'', JStr (js ''Cloud Code Bot Free Edition - Full Features''))]"

definition documentation_body :: json where
  "documentation_body = JObj
     [(js ''message'', JStr (js ''Cloud Code Bot Free Edition'')),
      (js ''version'', JStr (js ''2.0.0'')),
      (js ''services'', JObj
         [(js ''kv'', JStr (js ''Key-Value storage for config and cache'')),
          (js ''r2'', JStr (js ''Object storage for files and images'')),
          (js ''d1'', JStr (js ''SQL database for structured data''))]),
      (js ''endpoints'', JArr
         [endpoint ''GET'' ''/api/status'' ''Service status'',
          endpoint ''POST'' ''/api/kv'' ''Store data in KV'',
          endpoint ''GET'' ''/api/kv/:key'' ''Retrieve from KV'',
          endpoint ''POST'' ''/api/files'' ''Upload file to R2'',
          endpoint ''GET'' ''/api/files/:key'' ''Download file from R2'',
          endpoint ''POST'' ''/api/db/init'' ''Initialize database tables'',
          endpoint ''POST'' ''/api/db/query'' ''Execute SQL query''])]"

text \<open>The routes of the full variant.\<close>

definition dispatch :: "'db platform \<Rightarrow> 'db world \<Rightarrow> request \<Rightarrow> 'db outcome" where
  "dispatch P w request =
     (let pathname = req_pathname request; method = req_method request in
      if pathname = js ''/api/status'' then
        (Inr (json_response 200 (JSON_stringify status_body)), w)
      else if pathname = js ''/api/kv'' \<and> method = js ''POST'' then kv_post P w request
      else if startsWith pathname (js ''/api/kv/'') \<and> method = js ''GET'' then
        kv_get (js ''/api/kv/'') w request
      else if pathname = js ''/api/files'' \<and> method = js ''POST'' then files_post P w request
      else if startsWith pathname (js ''/api/files/'') \<and> method = js ''GET'' then
        files_get w request
      else if pathname = js ''/api/db/query'' \<and> method = js ''POST'' then db_query P w request
      else if pathname = js ''/api/db/init'' \<and> method = js ''POST'' then db_init P w
      else (Inr (json_response 200 (JSON_stringify documentation_body)), w))"

definition handleFetch :: "'db platform \<Rightarrow> env \<Rightarrow> 'db world \<Rightarrow> request \<Rightarrow> 'db outcome" where
  "handleFetch P e w request =
     (case verifyBasicAuth e request of
        Inl f \<Rightarrow> (Inl f, w)
      | Inr (Some authError) \<Rightarrow> (Inr authError, w)
      | Inr None \<Rightarrow> dispatch P w request)"

text \<open>The variant of \<^verbatim>\<open>src/index.ts\<close>: no object bucket.\<close>

definition status_body_kv_d1 :: json where
  "status_body_kv_d1 = JObj
     [(js ''status'', JStr (js ''running'')),
      (js ''version'', JStr (js ''free-tier'')),
      (js ''services'', JArr [JStr (js ''KV''), JStr (js ''D1'')]),
      (js ''message'', JStr (js ''Cloud Code Bot Free Edition - KV & D1''))]"

definition documentation_body_kv_d1 :: json where
  "documentation_body_kv_d1 = JObj
     [(js ''message'', JStr (js ''Cloud Code Bot Free Edition'')),
      (js ''version'', JStr (js ''2.0.0'')),
      (js ''services'', JObj
         [(js ''kv'', JStr (js ''Key-Value storage for config and cache'')),
          (js ''d1'', JStr (js ''SQL database for structured data''))]),
      (js ''endpoints'', JArr
         [endpoint ''GET'' ''/api/status'' ''Service status'',
          endpoint ''POST'' ''/api/kv'' ''Store data in KV'',
          endpoint ''GET'' ''/api/kv/:key'' ''Retrieve from KV'',
          endpoint ''POST'' ''/api/db/init'' ''Initialize database tables'',
          endpoint ''POST'' ''/api/db/query'' ''Execute SQL query''])]"

definition dispatch_kv_d1 :: "'db platform \<Rightarrow> 'db world \<Rightarrow> request \<Rightarrow> 'db outcome" where
  "dispatch_kv_d1 P w request =
     (let pathname = req_pathname request; method = req_method request in
      if pathname = js ''/api/status'' then
        (Inr (json_response 200 (JSON_stringify status_body_kv_d1)), w)
      else if pathname = js ''/api/kv'' \<and> method = js ''POST'' then kv_post P w request
      else if startsWith pathname (js ''/api/kv/'') \<and> method = js ''GET'' then
        kv_get (js ''/api/kv/'') w request
      else if pathname = js ''/api/db/query'' \<and> method = js ''POST'' then db_query P w request
      else if pathname = js ''/api/db/init'' \<and> method = js ''POST'' then db_init P w
      else (Inr (json_response 200 (JSON_stringify documentation_body_kv_d1)), w))"

definition handleFetch_kv_d1 :: "'db platform \<Rightarrow> env \<Rightarrow> 'db world \<Rightarrow> request \<Rightarrow> 'db outcome" where
  "handleFetch_kv_d1 P e w request =
     (case verifyBasicAuth e request of
        Inl f \<Rightarrow> (Inl f, w)
      | Inr (Some authError) \<Rightarrow> (Inr authError, w)
      | Inr None \<Rightarrow> dispatch_kv_d1 P w request)"

text \<open>The smallest variant: the key-value store behind \<^verbatim>\<open>/api/store\<close>.\<close>

definition status_body_kv :: json where
  "status_body_kv = JObj
     [(js ''status'', JStr (js ''running'')),
      (js ''version'', JStr (js ''free-tier'')),
      (js ''message'',
        JStr (js ''Cloud Code Bot Free Edition - Running on Cloudflare Workers + KV''))]"

definition documentation_body_kv :: json where
  "documentation_body_kv = JObj
     [(js ''message'', JStr (js ''Cloud Code Bot Free Edition'')),
      (js ''endpoints'', JArr
         [JStr (js ''GET /api/status - Check service status''),
          JStr (js ''POST /api/store - Store data in KV''),
          JStr (js ''GET /api/store/:key - Retrieve data from KV'')])]"

definition dispatch_kv :: "'db world \<Rightarrow> request \<Rightarrow> 'db outcome" where
  "dispatch_kv w request =
     (let pathname = req_pathname request; method = req_method request in
      if pathname = js ''/api/status'' then
        (Inr (json_response 200 (JSON_stringify status_body_kv)), w)
      else if pathname = js ''/api/store'' \<and> method = js ''POST'' then store_post w request
      else if startsWith pathname (js ''/api/store/'') \<and> method = js ''GET'' then
        kv_get (js ''/api/store/'') w request
      else (Inr (json_response 200 (JSON_stringify documentation_body_kv)), w))"

definition handleFetch_kv :: "env \<Rightarrow> 'db world \<Rightarrow> request \<Rightarrow> 'db outcome" where
  "handleFetch_kv e w request =
     (case verifyBasicAuth e request of
        Inl f \<Rightarrow> (Inl f, w)
      | Inr (Some authError) \<Rightarrow> (Inr authError, w)
      | Inr None \<Rightarrow> dispatch_kv w request)"

section \<open>The limits of the free tier\<close>

text \<open>
  The constants of \<^verbatim>\<open>FREE_TIER_LIMITS\<close> and \<^verbatim>\<open>checkLimits\<close>, which follow the full
  variant in the source (lines 316-359, under the comment
  \<^verbatim>\<open>Check limits before operations\<close>). No route calls \<^verbatim>\<open>checkLimits\<close>.
\<close>

datatype service = KV | R2 | D1

definition kv_maxStorageBytes :: nat where "kv_maxStorageBytes = 1024 * 1024 * 1024"
definition kv_maxKeySize :: nat where "kv_maxKeySize = 512 * 1024"
definition kv_maxValueSize :: nat where "kv_maxValueSize = 25 * 1024 * 1024"
definition r2_maxStorageBytes :: nat where "r2_maxStorageBytes = 10 * 1024 * 1024 * 1024"
definition r2_maxFileSize :: nat where "r2_maxFileSize = 300 * 1024 * 1024"
definition r2_maxFilesPerDay :: nat where "r2_maxFilesPerDay = 1000"
definition d1_maxStorageBytes :: nat where "d1_maxStorageBytes = 500 * 1024 * 1024"
definition d1_maxQueryLength :: nat where "d1_maxQueryLength = 100000"
definition d1_maxRowsPerQuery :: nat where "d1_maxRowsPerQuery = 50000"
definition requests_maxPerDay :: nat where "requests_maxPerDay = 100000"

definition checkLimits :: "service \<Rightarrow> nat \<Rightarrow> response option" where
  "checkLimits type sz =
     (if type = KV \<and> sz > kv_maxValueSize then
        Some \<lparr>status = 413, headers = [],
              payload = Text (JSON_stringify (JObj
                [(js ''error'', JStr (js ''KV value too large'')),
                 (js ''limit'', JNum (int kv_maxValueSize) 0),
                 (js ''received'', JNum (int sz) 0)]))\<rparr>
      else if type = R2 \<and> sz > r2_maxFileSize then
        Some \<lparr>status = 413, headers = [],
              payload = Text (JSON_stringify (JObj
                [(js ''error'', JStr (js ''File too large'')),
                 (js ''limit'', JNum (int r2_maxFileSize) 0),
                 (js ''received'', JNum (int sz) 0)]))\<rparr>
      else None)"

section \<open>JSON bodies\<close>

text \<open>
  A JSON text begins with white space (tab, line feed, carriage return, space), a
  brace, a bracket, a double quote, a minus sign, a digit, or the first letter of
  \<^verbatim>\<open>true\<close>, \<^verbatim>\<open>false\<close> or \<^verbatim>\<open>null\<close>. A body that begins otherwise is no JSON body.
\<close>

definition begins_json :: "jstring \<Rightarrow> bool" where
  "begins_json t =
     (case t of
        [] \<Rightarrow> False
      | c # cs \<Rightarrow> c \<in> set (9 # 10 # 13 # 34 # js '' {[-tfn'') \<or> (48 \<le> c \<and> c \<le> 57))"

section \<open>The path of a request URL\<close>

text \<open>
  The worker reads \<^verbatim>\<open>new URL(request.url).pathname\<close> and uses it as it is. A client that
  addresses the path \<open>p\<close> (written out, as in \<^verbatim>\<open>/api/kv/a b\<close>) reaches the worker with
  the path the URL parser makes of \<open>p\<close>. \<open>url_pathname\<close> is that path, after the path
  state of the URL Standard for an \<^verbatim>\<open>http\<close> or \<^verbatim>\<open>https\<close> URL: the string is read as
  code points (a surrogate that stands alone is U+FFFD), trailing control characters
  and spaces are dropped, tabs and newlines are removed, a backslash counts as a slash,
  the path ends at \<^verbatim>\<open>?\<close> or \<^verbatim>\<open>#\<close>, the segments \<^verbatim>\<open>.\<close> and \<^verbatim>\<open>..\<close> (also written with
  \<^verbatim>\<open>%2e\<close>) are resolved, and every code point of the path percent-encode set is
  replaced by the percent-encoded bytes of its UTF-8 form.
\<close>

fun code_points :: "jstring \<Rightarrow> nat list" where
  "code_points [] = []"
| "code_points [c] = [if high_surrogate c \<or> low_surrogate c then 65533 else c]"
| "code_points (c # d # ds) =
     (if high_surrogate c \<and> low_surrogate d then
        (65536 + (c - 55296) * 1024 + (d - 56320)) # code_points ds
      else (if high_surrogate c \<or> low_surrogate c then 65533 else c) # code_points (d # ds))"

definition utf8 :: "nat \<Rightarrow> nat list" where
  "utf8 c =
     (if c < 128 then [c]
      else if c < 2048 then [192 + c div 64, 128 + c mod 64]
      else if c < 65536 then [224 + c div 4096, 128 + c div 64 mod 64, 128 + c mod 64]
      else [240 + c div 262144, 128 + c div 4096 mod 64, 128 + c div 64 mod 64, 128 + c mod 64])"

definition upper_hex_digit :: "nat \<Rightarrow> nat" where
  "upper_hex_digit d = js ''0123456789ABCDEF'' ! (d mod 16)"

definition percent_byte :: "nat \<Rightarrow> jstring" where
  "percent_byte b = [37, upper_hex_digit (b div 16), upper_hex_digit b]"

text \<open>
  The path percent-encode set: the control characters, everything above \<^verbatim>\<open>~\<close>, the
  space and \<^verbatim>\<open>" # < > ? ^ ` { }\<close>.
\<close>

definition path_percent_encode_set :: "nat \<Rightarrow> bool" where
  "path_percent_encode_set c =
     (c \<le> 31 \<or> 126 < c \<or> c \<in> set [32, 34, 35, 60, 62, 63, 94, 96, 123, 125])"

definition utf8_percent_encode :: "nat \<Rightarrow> jstring" where
  "utf8_percent_encode c =
     (if path_percent_encode_set c then concat (map percent_byte (utf8 c)) else [c])"

definition single_dot :: "jstring \<Rightarrow> bool" where
  "single_dot buffer = (buffer \<in> set [js ''.'', js ''%2e'', js ''%2E''])"

definition double_dot :: "jstring \<Rightarrow> bool" where
  "double_dot buffer =
     (buffer \<in> set [js ''..'', js ''.%2e'', js ''.%2E'', js ''%2e.'', js ''%2E.'',
                       js ''%2e%2e'', js ''%2e%2E'', js ''%2E%2e'', js ''%2E%2E''])"

text \<open>
  The end of a segment: \<^verbatim>\<open>..\<close> removes the last segment of the path (if there is one),
  \<^verbatim>\<open>.\<close> adds nothing, and either leaves an empty segment behind when it ends the path.
\<close>

definition end_segment :: "jstring \<Rightarrow> jstring list \<Rightarrow> bool \<Rightarrow> jstring list" where
  "end_segment buffer path at_end =
     (if double_dot buffer then (if at_end then butlast path @ [[]] else butlast path)
      else if single_dot buffer then (if at_end then path @ [[]] else path)
      else path @ [buffer])"

fun path_state :: "nat list \<Rightarrow> jstring \<Rightarrow> jstring list \<Rightarrow> jstring list" where
  "path_state [] buffer path = end_segment buffer path True"
| "path_state (c # cs) buffer path =
     (if c = 47 \<or> c = 92 then path_state cs [] (end_segment buffer path False)
      else if c = 63 \<or> c = 35 then end_segment buffer path True
      else path_state cs (buffer @ utf8_percent_encode c) path)"

definition strip_trailing :: "nat list \<Rightarrow> nat list" where
  "strip_trailing s = rev (dropWhile (\<lambda>c. c \<le> 32) (rev s))"

definition url_pathname :: "jstring \<Rightarrow> jstring" where
  "url_pathname written =
     (let input = filter (\<lambda>c. c \<noteq> 9 \<and> c \<noteq> 10 \<and> c \<noteq> 13) (strip_trailing (code_points written));
          rest = (case input of [] \<Rightarrow> [] | c # cs \<Rightarrow> if c = 47 \<or> c = 92 then cs else c # cs)
      in concat (map (\<lambda>segment. 47 # segment) (path_state rest [] [])))"

text \<open>
  The characters no URL parser touches: the ASCII letters and digits and
  \<^verbatim>\<open>- . _ ~\<close>.
\<close>

definition plain_char :: "nat \<Rightarrow> bool" where
  "plain_char c =
     (48 \<le> c \<and> c \<le> 57 \<or> 65 \<le> c \<and> c \<le> 90 \<or> 97 \<le> c \<and> c \<le> 122 \<or>
      c = 45 \<or> c = 46 \<or> c = 95 \<or> c = 126)"

section \<open>Sample data\<close>

text \<open>
  A platform, a world and configurations on which the theorems below are instantiated:
  a database that counts the statements it has run and knows one query, a bucket whose
  entity tag is the quoted length of the object, a key-value binding that refuses what
  is no string, an empty key-value store and an empty bucket.
\<close>

definition sample_platform :: "nat platform" where
  "sample_platform =
     \<lparr>d1_all = (\<lambda>db sql params.
        if sql = Some (JStr (js ''SELECT 1'')) then
          (Inr (JObj [(js ''success'', JBool True),
                      (js ''results'', JArr [JObj [(js ''1'', JNum 1 0)]])]), Suc db)
        else (Inl (js ''syntax error''), db)),
      d1_exec = (\<lambda>db text. (None, Suc db)),
      r2_etag = (\<lambda>bytes. quote (show_nat (length bytes))),
      kv_put_other = (\<lambda>store key text. Inl TypeError)\<rparr>"

definition sample_world :: "nat world" where
  "sample_world = \<lparr>STORAGE = Map.empty, FILES = Map.empty, DB = 0, now = 1700000000000\<rparr>"

definition open_env :: env where
  "open_env = \<lparr>SERVER_USERNAME = None, SERVER_PASSWORD = None\<rparr>"

definition sample_env :: env where
  "sample_env = \<lparr>SERVER_USERNAME = Some (js ''admin''), SERVER_PASSWORD = Some (js ''secret'')\<rparr>"

text \<open>A password of one character, the euro sign (code unit 8364).\<close>

definition euro_env :: env where
  "euro_env = \<lparr>SERVER_USERNAME = Some (js ''admin''), SERVER_PASSWORD = Some [8364]\<rparr>"

definition sample_file :: jsfile where
  "sample_file = \<lparr>file_name = js ''a.txt'', file_type = js ''text/plain'', file_bytes = [104, 105]\<rparr>"

text \<open>A file whose name has a space.\<close>

definition spaced_file :: jsfile where
  "spaced_file = \<lparr>file_name = js ''a b.txt'', file_type = js ''text/plain'', file_bytes = [104, 105]\<rparr>"

section \<open>Properties of the strings and of the serialiser\<close>

lemma startsWith_append: "startsWith (p @ k) p"
  by (induction p) auto

lemma replace_by_empty_startsWith:
  "startsWith s p \<Longrightarrow> replace_by_empty s p = drop (length p) s"
  by (cases s; cases p) auto

lemma replace_by_empty_append: "replace_by_empty (p @ k) p = k"
  by (simp add: replace_by_empty_startsWith startsWith_append)

lemma show_nat_nonempty: "show_nat n \<noteq> []"
  by (subst show_nat.simps) simp

lemma show_nat_head: "hd (show_nat n) \<in> {48..57}"
proof (induction n rule: show_nat.induct)
  case (1 n)
  show ?case
  proof (cases "n < 10")
    case True
    then show ?thesis by (subst show_nat.simps) simp
  next
    case False
    with 1 show ?thesis
      by (subst show_nat.simps) (simp add: show_nat_nonempty)
  qed
qed

lemma positive_text_head: "\<exists>c cs. positive_text s e = c # cs \<and> 48 \<le> c \<and> c \<le> 57"
proof -
  obtain d ds where eq: "show_nat s = d # ds"
    using show_nat_nonempty [of s] by (cases "show_nat s") auto
  with show_nat_head [of s] have "48 \<le> d \<and> d \<le> 57" by simp
  with eq show ?thesis
    by (auto simp: positive_text_def Let_def js_def take_Cons')
qed

lemma number_text_head:
  "\<exists>c cs. number_text m e = c # cs \<and> (c = 45 \<or> 48 \<le> c \<and> c \<le> 57)"
proof (cases "m = 0")
  case True
  then show ?thesis by (simp add: number_text_def js_def)
next
  case False
  obtain s e' where "strip_zeros (nat \<bar>m\<bar>) e = (s, e')"
    by (cases "strip_zeros (nat \<bar>m\<bar>) e")
  with False positive_text_head [of s e'] show ?thesis
    by (auto simp: number_text_def)
qed

lemma JSON_stringify_nonempty: "JSON_stringify v \<noteq> []"
proof (cases v)
  case (JNum m e)
  with number_text_head [of m e] show ?thesis by auto
qed (simp_all add: js_def quote_def)

lemma begins_json_stringify: "begins_json (JSON_stringify v)"
proof (cases v)
  case (JNum m e)
  with number_text_head [of m e] show ?thesis
    by (auto simp: begins_json_def js_def)
next
  case (JBool b)
  then show ?thesis by (cases b) (simp_all add: begins_json_def js_def)
qed (simp_all add: begins_json_def js_def quote_def)

lemma length_escape_unit: "1 \<le> length (escape_unit c)"
  by (simp add: escape_unit_def unicode_escape_def)

lemma length_quote_units: "length s \<le> length (quote_units s)"
proof (induction s rule: quote_units.induct)
  case 1
  show ?case by simp
next
  case (2 c)
  show ?case using length_escape_unit [of c] by simp
next
  case (3 c d ds)
  then show ?case using length_escape_unit [of c] by (cases "high_surrogate c \<and> low_surrogate d") auto
qed

lemma length_stringify_JStr: "length s + 2 \<le> length (JSON_stringify (JStr s))"
  using length_quote_units [of s] by (simp add: quote_def)

section \<open>Properties of the URL parser\<close>

lemma show_nat_digits: "list_all (\<lambda>c. 48 \<le> c \<and> c \<le> 57) (show_nat n)"
proof (induction n rule: show_nat.induct)
  case (1 n)
  show ?case
  proof (cases "n < 10")
    case True
    then show ?thesis by (subst show_nat.simps) simp
  next
    case False
    with 1 show ?thesis by (subst show_nat.simps) simp
  qed
qed

lemma plain_char_facts:
  assumes "plain_char c"
  shows "c \<noteq> 47" and "c \<noteq> 92" and "c \<noteq> 63" and "c \<noteq> 35" and "c \<noteq> 37"
    and "32 < c" and "c < 55296" and "utf8_percent_encode c = [c]"
  using assms
  by (auto simp: plain_char_def utf8_percent_encode_def path_percent_encode_set_def)

lemma code_points_ascii: "list_all (\<lambda>c. c < 55296) s \<Longrightarrow> code_points s = s"
  by (induction s rule: code_points.induct) (auto simp: high_surrogate_def low_surrogate_def)

lemma strip_trailing_last: "s \<noteq> [] \<Longrightarrow> 32 < last s \<Longrightarrow> strip_trailing s = s"
  by (cases s rule: rev_cases) (auto simp: strip_trailing_def)

lemma filter_visible:
  "list_all (\<lambda>c. 32 < c) s \<Longrightarrow> filter (\<lambda>c. c \<noteq> 9 \<and> c \<noteq> 10 \<and> c \<noteq> 13) s = s"
  for s :: "nat list"
  by (induction s) auto

lemma path_state_plain:
  "list_all plain_char cs \<Longrightarrow> path_state cs buffer path = end_segment (buffer @ cs) path True"
proof (induction cs arbitrary: buffer)
  case Nil
  show ?case by simp
next
  case (Cons c cs)
  then have "plain_char c" and "list_all plain_char cs" by simp_all
  with Cons.IH [of "buffer @ [c]"] plain_char_facts [of c] show ?case by simp
qed

lemma no_dot_segment:
  assumes "list_all plain_char s" and "s \<noteq> js ''.''" and "s \<noteq> js ''..''"
  shows "\<not> single_dot s \<and> \<not> double_dot s"
proof -
  have "37 \<notin> set s"
    using assms(1) plain_char_facts(5) by (auto simp: list_all_iff)
  then show ?thesis
    using assms(2,3) by (auto simp: single_dot_def double_dot_def js_def)
qed

lemma end_segment_plain:
  "list_all plain_char s \<Longrightarrow> s \<noteq> js ''.'' \<Longrightarrow> s \<noteq> js ''..'' \<Longrightarrow>
   end_segment s path at_end = path @ [s]"
  using no_dot_segment [of s] by (simp add: end_segment_def)

lemma url_pathname_clean:
  assumes "written = 47 # rest" and "list_all (\<lambda>c. 32 < c \<and> c < 55296) rest"
  shows "url_pathname written = concat (map (\<lambda>segment. 47 # segment) (path_state rest [] []))"
proof -
  have "list_all (\<lambda>c. c < 55296) written" "list_all (\<lambda>c. 32 < c) written"
    using assms by (auto simp: list_all_iff)
  moreover have "32 < last written"
    using assms by (cases rest rule: rev_cases) (auto simp: list_all_iff)
  ultimately show ?thesis
    using assms(1) by (simp add: url_pathname_def code_points_ascii strip_trailing_last filter_visible)
qed

lemma url_pathname_kv_plain:
  assumes "list_all plain_char K" and "K \<noteq> js ''.''" and "K \<noteq> js ''..''"
  shows "url_pathname (js ''/api/kv/'' @ K) = js ''/api/kv/'' @ K"
proof -
  have v: "list_all (\<lambda>c. 32 < c \<and> c < 55296) (js ''api/kv/'' @ K)"
    using assms(1) plain_char_facts(6,7) by (auto simp: list_all_iff js_def)
  have "js ''/api/kv/'' @ K = 47 # js ''api/kv/'' @ K" by (simp add: js_def)
  from url_pathname_clean [OF this v]
  have "url_pathname (js ''/api/kv/'' @ K)
      = concat (map (\<lambda>segment. 47 # segment) (path_state (js ''api/kv/'' @ K) [] []))" .
  also have "path_state (js ''api/kv/'' @ K) [] [] = path_state K [] [js ''api'', js ''kv'']"
    by (simp add: js_def utf8_percent_encode_def path_percent_encode_set_def end_segment_def
        single_dot_def double_dot_def)
  also have "\<dots> = [js ''api'', js ''kv'', K]"
    using assms by (simp add: path_state_plain end_segment_plain)
  finally show ?thesis by (simp add: js_def)
qed

lemma url_pathname_upload_plain:
  assumes "list_all plain_char name"
  shows "url_pathname (js ''/api/files/'' @ js ''uploads/'' @ show_nat n @ js ''-'' @ name)
     = js ''/api/files/'' @ js ''uploads/'' @ show_nat n @ js ''-'' @ name"
proof -
  let ?s = "show_nat n @ js ''-'' @ name"
  have d: "list_all plain_char (show_nat n)"
    using show_nat_digits [of n] by (auto simp: list_all_iff plain_char_def)
  then have p: "list_all plain_char ?s"
    using assms by (simp add: js_def plain_char_def)
  obtain c cs where eq: "show_nat n = c # cs"
    using show_nat_nonempty [of n] by (cases "show_nat n") auto
  with show_nat_head [of n] have "48 \<le> c" by simp
  with eq have nd: "?s \<noteq> js ''.''" "?s \<noteq> js ''..''" by (auto simp: js_def)
  have v: "list_all (\<lambda>c. 32 < c \<and> c < 55296) (js ''api/files/uploads/'' @ ?s)"
    using p plain_char_facts(6,7) by (auto simp: list_all_iff js_def)
  have "js ''/api/files/'' @ js ''uploads/'' @ ?s = 47 # js ''api/files/uploads/'' @ ?s"
    by (simp add: js_def)
  from url_pathname_clean [OF this v]
  have "url_pathname (js ''/api/files/'' @ js ''uploads/'' @ ?s)
      = concat (map (\<lambda>segment. 47 # segment) (path_state (js ''api/files/uploads/'' @ ?s) [] []))" .
  also have "path_state (js ''api/files/uploads/'' @ ?s) [] []
      = path_state ?s [] [js ''api'', js ''files'', js ''uploads'']"
    by (simp add: js_def utf8_percent_encode_def path_percent_encode_set_def end_segment_def
        single_dot_def double_dot_def)
  also have "\<dots> = [js ''api'', js ''files'', js ''uploads'', ?s]"
    using p nd by (simp add: path_state_plain end_segment_plain)
  finally show ?thesis by (simp add: js_def)
qed

section \<open>Properties of the routes\<close>

lemma dispatch_kv_post:
  "req_pathname r = js ''/api/kv'' \<Longrightarrow> req_method r = js ''POST'' \<Longrightarrow>
   dispatch P w r = kv_post P w r \<and> dispatch_kv_d1 P w r = kv_post P w r"
  by (simp add: dispatch_def dispatch_kv_d1_def js_def)

lemma dispatch_kv_get:
  "req_pathname r = js ''/api/kv/'' @ k \<Longrightarrow> req_method r = js ''GET'' \<Longrightarrow>
   dispatch P w r = kv_get (js ''/api/kv/'') w r \<and>
   dispatch_kv_d1 P w r = kv_get (js ''/api/kv/'') w r"
  by (simp add: dispatch_def dispatch_kv_d1_def js_def)

lemma dispatch_files_post:
  "req_pathname r = js ''/api/files'' \<Longrightarrow> req_method r = js ''POST'' \<Longrightarrow>
   dispatch P w r = files_post P w r"
  by (simp add: dispatch_def js_def)

lemma dispatch_files_get:
  "req_pathname r = js ''/api/files/'' @ k \<Longrightarrow> req_method r = js ''GET'' \<Longrightarrow>
   dispatch P w r = files_get w r"
  by (simp add: dispatch_def js_def)

lemma dispatch_db_query:
  "req_pathname r = js ''/api/db/query'' \<Longrightarrow> req_method r = js ''POST'' \<Longrightarrow>
   dispatch P w r = db_query P w r \<and> dispatch_kv_d1 P w r = db_query P w r"
  by (simp add: dispatch_def dispatch_kv_d1_def js_def)

lemma handleFetch_allowed:
  "verifyBasicAuth e r = Inr None \<Longrightarrow>
   handleFetch P e w r = dispatch P w r \<and>
   handleFetch_kv_d1 P e w r = dispatch_kv_d1 P w r \<and>
   handleFetch_kv e w r = dispatch_kv w r"
  by (simp add: handleFetch_def handleFetch_kv_d1_def handleFetch_kv_def)

lemma handleFetch_rejected:
  "verifyBasicAuth e r = Inr (Some resp) \<Longrightarrow>
   handleFetch P e w r = (Inr resp, w) \<and>
   handleFetch_kv_d1 P e w r = (Inr resp, w) \<and>
   handleFetch_kv e w r = (Inr resp, w)"
  by (simp add: handleFetch_def handleFetch_kv_d1_def handleFetch_kv_def)

lemma handleFetch_fault:
  "verifyBasicAuth e r = Inl f \<Longrightarrow>
   handleFetch P e w r = (Inl f, w) \<and>
   handleFetch_kv_d1 P e w r = (Inl f, w) \<and>
   handleFetch_kv e w r = (Inl f, w)"
  by (simp add: handleFetch_def handleFetch_kv_d1_def handleFetch_kv_def)

lemma kv_get_world: "snd (kv_get pre w r) = w"
  by (simp add: kv_get_def Let_def split: option.splits)

lemma files_get_world: "snd (files_get w r) = w"
  by (simp add: files_get_def Let_def split: option.splits)

lemma dispatch_GET_world:
  "req_method r = js ''GET'' \<Longrightarrow>
   snd (dispatch P w r) = w \<and> snd (dispatch_kv_d1 P w r) = w \<and> snd (dispatch_kv w r) = w"
  by (simp add: dispatch_def dispatch_kv_d1_def dispatch_kv_def Let_def kv_get_world
      files_get_world js_def)

lemma handleFetch_cases:
  "handleFetch P e w r = dispatch P w r \<or> snd (handleFetch P e w r) = w"
  "handleFetch_kv_d1 P e w r = dispatch_kv_d1 P w r \<or> snd (handleFetch_kv_d1 P e w r) = w"
  "handleFetch_kv e w r = dispatch_kv w r \<or> snd (handleFetch_kv e w r) = w"
  by (auto simp: handleFetch_def handleFetch_kv_d1_def handleFetch_kv_def
      split: sum.splits option.splits)

lemma kv_post_object:
  "req_body r = JsonBody (JObj [(js ''key'', JStr K), (js ''value'', V)]) \<Longrightarrow>
   kv_post P w r =
     (Inr (json_response 200 (JSON_stringify (JObj [(js ''success'', JBool True), (js ''key'', JStr K)]))),
      w\<lparr>STORAGE := (STORAGE w)(K \<mapsto> JSON_stringify V)\<rparr>)"
  by (simp add: kv_post_def request_json_def kv_put_def stringify_def js_def)

lemma kv_get_present:
  "req_pathname r = pre @ K \<Longrightarrow> STORAGE w K = Some t \<Longrightarrow> t \<noteq> [] \<Longrightarrow>
   kv_get pre w r = (Inr (json_response 200 t), w)"
  by (simp add: kv_get_def replace_by_empty_append)

lemma kv_get_absent:
  "req_pathname r = pre @ K \<Longrightarrow> STORAGE w K = None \<Longrightarrow>
   kv_get pre w r = (Inr (text_response 404 (js ''Not found'')), w)"
  by (simp add: kv_get_def replace_by_empty_append)

lemma files_get_absent:
  "req_pathname r = js ''/api/files/'' @ K \<Longrightarrow> FILES w K = None \<Longrightarrow>
   files_get w r = (Inr (text_response 404 (js ''File not found'')), w)"
  by (simp add: files_get_def replace_by_empty_append)

lemma files_get_present:
  "req_pathname r = js ''/api/files/'' @ K \<Longrightarrow> FILES w K = Some obj \<Longrightarrow>
   files_get w r =
     (Inr \<lparr>status = 200,
           headers = writeHttpMetadata obj [] @ [(js ''etag'', httpEtag obj)],
           payload = Bytes (object_body obj)\<rparr>, w)"
  by (simp add: files_get_def replace_by_empty_append)

lemma files_post_missing:
  "req_body r = FormBody form \<Longrightarrow> map_of form (js ''file'') = None \<Longrightarrow>
   files_post P w r = (Inr (text_response 400 (js ''No file provided'')), w)"
  by (simp add: files_post_def request_formData_def)

lemma files_post_file:
  "req_body r = FormBody form \<Longrightarrow> map_of form (js ''file'') = Some (FormFile f) \<Longrightarrow>
   files_post P w r =
     (Inr (json_response 200 (JSON_stringify (JObj
        [(js ''success'', JBool True),
         (js ''key'', JStr (js ''uploads/'' @ show_nat (now w) @ js ''-'' @ file_name f)),
         (js ''url'', JStr (js ''/api/files/'' @ js ''uploads/'' @ show_nat (now w) @ js ''-'' @ file_name f))]))),
      w\<lparr>FILES := (FILES w)(js ''uploads/'' @ show_nat (now w) @ js ''-'' @ file_name f \<mapsto>
         \<lparr>object_body = file_bytes f, contentType = Some (file_type f),
          httpEtag = r2_etag P (file_bytes f)\<rparr>)\<rparr>)"
  by (simp add: files_post_def request_formData_def Let_def)

lemma db_query_object:
  "req_body r = JsonBody (JObj [(js ''sql'', sql), (js ''params'', params)]) \<Longrightarrow>
   db_query P w r =
     (case d1_all P (DB w) (Some sql) params of
        (Inr result, db) \<Rightarrow>
          (Inr (json_response 200 (JSON_stringify (JObj
             [(js ''success'', JBool True), (js ''result'', result)]))), w\<lparr>DB := db\<rparr>)
      | (Inl message, db) \<Rightarrow>
          (Inr (json_response 400 (JSON_stringify (JObj
             [(js ''success'', JBool False), (js ''error'', JStr message)]))), w\<lparr>DB := db\<rparr>))"
  by (simp add: db_query_def request_json_def js_def)

lemma files_post_empty_text:
  "req_body r = FormBody form \<Longrightarrow> map_of form (js ''file'') = Some (FormString []) \<Longrightarrow>
   files_post P w r = (Inr (text_response 400 (js ''No file provided'')), w)"
  by (simp add: files_post_def request_formData_def)

lemma files_post_text:
  "req_body r = FormBody form \<Longrightarrow> map_of form (js ''file'') = Some (FormString s) \<Longrightarrow>
   s \<noteq> [] \<Longrightarrow> files_post P w r = (Inl TypeError, w)"
  by (simp add: files_post_def request_formData_def)

lemma verifyBasicAuth_basic:
  assumes "SERVER_USERNAME e = Some u" and "SERVER_PASSWORD e = Some p" and "p \<noteq> []"
    and "req_authorization r = Some a" and "startsWith a (js ''Basic '')"
  shows "verifyBasicAuth e r =
     (if latin1 (u @ js '':'' @ p) then
        if drop 6 a = base64 (u @ js '':'' @ p) then Inr None
        else Inr (Some (text_response 401 (js ''Unauthorized'')))
      else Inl InvalidCharacterError)"
  using assms by (simp add: verifyBasicAuth_def falsy_def template_def btoa_def)

lemma verifyBasicAuth_rejection:
  "verifyBasicAuth e r = Inr (Some resp) \<Longrightarrow>
   resp = challenge \<or> resp = text_response 401 (js ''Unauthorized'')"
  by (auto simp: verifyBasicAuth_def Let_def split: if_splits option.splits sum.splits)

lemma verifyBasicAuth_open: "verifyBasicAuth open_env r = Inr None"
  by (simp add: verifyBasicAuth_def open_env_def falsy_def)

lemma base64_admin_secret: "base64 (js ''admin:secret'') = js ''YWRtaW46c2VjcmV0''"
  by (simp add: js_def b64_digit_def b64_alphabet_def)

section \<open>Basic credentials\<close>

text \<open>
  C1, for credentials that \<^verbatim>\<open>btoa\<close> accepts. Let a user name and a non-empty password be
  configured, every code unit of \<^verbatim>\<open>username:password\<close> be at most 255, and the request
  carry an \<^verbatim>\<open>Authorization\<close> header that starts with \<^verbatim>\<open>Basic \<close>. Then every variant of
  the dispatcher goes on to its routes if and only if the rest of the header equals the
  base64 text of \<^verbatim>\<open>username:password\<close>; on any other header it answers with status
  401 and no \<^verbatim>\<open>WWW-Authenticate\<close> header, and leaves the world as it was.
\<close>

theorem basic_credentials_decide:
  assumes "SERVER_USERNAME e = Some u" and "SERVER_PASSWORD e = Some p" and "p \<noteq> []"
    and "req_authorization request = Some a" and "startsWith a (js ''Basic '')"
    and "latin1 (u @ js '':'' @ p)"
  shows
    "(if drop 6 a = base64 (u @ js '':'' @ p) then
        handleFetch P e w request = dispatch P w request \<and>
        handleFetch_kv_d1 P e w request = dispatch_kv_d1 P w request \<and>
        handleFetch_kv e w request = dispatch_kv w request
      else
        handleFetch P e w request = (Inr (text_response 401 (js ''Unauthorized'')), w) \<and>
        handleFetch_kv_d1 P e w request = (Inr (text_response 401 (js ''Unauthorized'')), w) \<and>
        handleFetch_kv e w request = (Inr (text_response 401 (js ''Unauthorized'')), w)) \<and>
     status (text_response 401 (js ''Unauthorized'')) = 401 \<and>
     map_of (headers (text_response 401 (js ''Unauthorized''))) (js ''www-authenticate'') = None"
proof (cases "drop 6 a = base64 (u @ js '':'' @ p)")
  case True
  with assms have "verifyBasicAuth e request = Inr None"
    by (simp add: verifyBasicAuth_basic)
  from handleFetch_allowed [OF this] True show ?thesis
    by (simp add: text_response_def)
next
  case False
  with assms have "verifyBasicAuth e request = Inr (Some (text_response 401 (js ''Unauthorized'')))"
    by (simp add: verifyBasicAuth_basic)
  from handleFetch_rejected [OF this] False show ?thesis
    by (simp add: text_response_def)
qed

text \<open>
  With \<^verbatim>\<open>admin\<close> and \<^verbatim>\<open>secret\<close> configured, the header \<^verbatim>\<open>Basic YWRtaW46c2VjcmV0\<close>
  reaches the route, and a header that differs in its last character is rejected.
\<close>

theorem basic_credentials_decide_witness:
  "handleFetch sample_platform sample_env sample_world
     \<lparr>req_method = js ''GET'', req_pathname = js ''/api/kv/a'',
      req_authorization = Some (js ''Basic YWRtaW46c2VjcmV0''), req_body = OtherBody\<rparr>
   = (Inr (text_response 404 (js ''Not found'')), sample_world) \<and>
   handleFetch sample_platform sample_env sample_world
     \<lparr>req_method = js ''GET'', req_pathname = js ''/api/kv/a'',
      req_authorization = Some (js ''Basic YWRtaW46c2VjcmV1''), req_body = OtherBody\<rparr>
   = (Inr (text_response 401 (js ''Unauthorized'')), sample_world)"
proof -
  let ?ok = "\<lparr>req_method = js ''GET'', req_pathname = js ''/api/kv/a'',
      req_authorization = Some (js ''Basic YWRtaW46c2VjcmV0''), req_body = OtherBody\<rparr>"
  let ?bad = "\<lparr>req_method = js ''GET'', req_pathname = js ''/api/kv/a'',
      req_authorization = Some (js ''Basic YWRtaW46c2VjcmV1''), req_body = OtherBody\<rparr>"
  have u: "SERVER_USERNAME sample_env = Some (js ''admin'')"
    and p: "SERVER_PASSWORD sample_env = Some (js ''secret'')" and ne: "js ''secret'' \<noteq> []"
    by (simp_all add: sample_env_def js_def)
  have l: "latin1 (js ''admin'' @ js '':'' @ js ''secret'')"
    by (simp add: latin1_def js_def)
  have b: "base64 (js ''admin'' @ js '':'' @ js ''secret'') = js ''YWRtaW46c2VjcmV0''"
    using base64_admin_secret by (simp add: js_def)
  have r: "dispatch sample_platform sample_world ?ok = (Inr (text_response 404 (js ''Not found'')), sample_world)"
    by (simp add: dispatch_def kv_get_def sample_world_def js_def)
  have "handleFetch sample_platform sample_env sample_world ?ok = dispatch sample_platform sample_world ?ok"
    using basic_credentials_decide [OF u p ne, of ?ok "js ''Basic YWRtaW46c2VjcmV0''" sample_platform sample_world] l b
    by (simp add: js_def)
  moreover have "handleFetch sample_platform sample_env sample_world ?bad = (Inr (text_response 401 (js ''Unauthorized'')), sample_world)"
    using basic_credentials_decide [OF u p ne, of ?bad "js ''Basic YWRtaW46c2VjcmV1''" sample_platform sample_world] l b
    by (simp add: js_def)
  ultimately show ?thesis using r by simp
qed

text \<open>
  Without the bound on the code units C1 fails. With the euro sign (code unit 8364) as
  the configured password, \<^verbatim>\<open>btoa\<close> throws on a request with a Basic header, here the
  header a client computes from the UTF-8 bytes of the credentials: the request neither
  reaches the routes nor is answered with status 401.
\<close>

theorem btoa_refuses_euro_password:
  "handleFetch sample_platform euro_env sample_world
     \<lparr>req_method = js ''GET'', req_pathname = js ''/api/status'',
      req_authorization = Some (js ''Basic YWRtaW464oKs''), req_body = OtherBody\<rparr>
   = (Inl InvalidCharacterError, sample_world) \<and>
   handleFetch sample_platform euro_env sample_world
     \<lparr>req_method = js ''GET'', req_pathname = js ''/api/status'',
      req_authorization = Some (js ''Basic YWRtaW464oKs''), req_body = OtherBody\<rparr>
   \<noteq> dispatch sample_platform sample_world
     \<lparr>req_method = js ''GET'', req_pathname = js ''/api/status'',
      req_authorization = Some (js ''Basic YWRtaW464oKs''), req_body = OtherBody\<rparr> \<and>
   handleFetch sample_platform euro_env sample_world
     \<lparr>req_method = js ''GET'', req_pathname = js ''/api/status'',
      req_authorization = Some (js ''Basic YWRtaW464oKs''), req_body = OtherBody\<rparr>
   \<noteq> (Inr (text_response 401 (js ''Unauthorized'')), sample_world)"
  by (simp add: handleFetch_def verifyBasicAuth_def falsy_def template_def btoa_def latin1_def
      euro_env_def dispatch_def js_def)

section \<open>The key-value round trip\<close>

text \<open>
  C2, for keys the URL parser leaves as they are. For every key \<open>K\<close> and every JSON
  value \<open>V\<close>: an authenticated \<^verbatim>\<open>POST /api/kv\<close> with the body
  \<^verbatim>\<open>{key: K, value: V}\<close> answers with status 200 and the acknowledgment
  \<^verbatim>\<open>{success: true, key: K}\<close>, and writes the JSON text of \<open>V\<close> under \<open>K\<close> and
  nothing else. When the URL parser returns the path \<^verbatim>\<open>/api/kv/K\<close> unchanged, an
  authenticated \<^verbatim>\<open>GET\<close> of that path on the world the \<^verbatim>\<open>POST\<close> leaves answers with
  status 200 and the JSON text of \<open>V\<close>. This holds of the full variant and of the
  variant of \<^verbatim>\<open>src/index.ts\<close>. By \<open>url_pathname_kv_plain\<close> the parser returns the path
  unchanged for every key of ASCII letters, digits and \<^verbatim>\<open>- . _ ~\<close> other than
  \<^verbatim>\<open>.\<close> and \<^verbatim>\<open>..\<close>.
\<close>

theorem kv_round_trip:
  assumes "verifyBasicAuth e post = Inr None" and "verifyBasicAuth e retrieve = Inr None"
    and "req_method post = js ''POST''" and "req_pathname post = js ''/api/kv''"
    and "req_body post = JsonBody (JObj [(js ''key'', JStr K), (js ''value'', V)])"
    and "req_method retrieve = js ''GET''"
    and "req_pathname retrieve = url_pathname (js ''/api/kv/'' @ K)"
    and "w' = w\<lparr>STORAGE := (STORAGE w)(K \<mapsto> JSON_stringify V)\<rparr>"
  shows "handleFetch P e w post =
      (Inr (json_response 200 (JSON_stringify (JObj [(js ''success'', JBool True), (js ''key'', JStr K)]))), w') \<and>
    handleFetch_kv_d1 P e w post =
      (Inr (json_response 200 (JSON_stringify (JObj [(js ''success'', JBool True), (js ''key'', JStr K)]))), w') \<and>
    (url_pathname (js ''/api/kv/'' @ K) = js ''/api/kv/'' @ K \<longrightarrow>
       handleFetch P e w' retrieve = (Inr (json_response 200 (JSON_stringify V)), w') \<and>
       handleFetch_kv_d1 P e w' retrieve = (Inr (json_response 200 (JSON_stringify V)), w'))"
proof (intro conjI impI)
  have post: "kv_post P w post =
      (Inr (json_response 200 (JSON_stringify (JObj [(js ''success'', JBool True), (js ''key'', JStr K)]))), w')"
    using assms(5,8) by (simp add: kv_post_object)
  show "handleFetch P e w post =
      (Inr (json_response 200 (JSON_stringify (JObj [(js ''success'', JBool True), (js ''key'', JStr K)]))), w')"
    using handleFetch_allowed [OF assms(1), of P w] dispatch_kv_post [OF assms(4,3), of P w] post
    by simp
  show "handleFetch_kv_d1 P e w post =
      (Inr (json_response 200 (JSON_stringify (JObj [(js ''success'', JBool True), (js ''key'', JStr K)]))), w')"
    using handleFetch_allowed [OF assms(1), of P w] dispatch_kv_post [OF assms(4,3), of P w] post
    by simp
next
  assume "url_pathname (js ''/api/kv/'' @ K) = js ''/api/kv/'' @ K"
  with assms(7) have path: "req_pathname retrieve = js ''/api/kv/'' @ K" by simp
  have "STORAGE w' K = Some (JSON_stringify V)"
    using assms(8) by simp
  from kv_get_present [OF path this JSON_stringify_nonempty]
  have get: "kv_get (js ''/api/kv/'') w' retrieve = (Inr (json_response 200 (JSON_stringify V)), w')" .
  show "handleFetch P e w' retrieve = (Inr (json_response 200 (JSON_stringify V)), w')"
    using handleFetch_allowed [OF assms(2), of P w'] dispatch_kv_get [OF path assms(6), of P w'] get
    by simp
  show "handleFetch_kv_d1 P e w' retrieve = (Inr (json_response 200 (JSON_stringify V)), w')"
    using handleFetch_allowed [OF assms(2), of P w'] dispatch_kv_get [OF path assms(6), of P w'] get
    by simp
qed

text \<open>The round trip of the array \<^verbatim>\<open>[1.5,"x"]\<close> under the key \<^verbatim>\<open>motd\<close>.\<close>

theorem kv_round_trip_witness:
  "url_pathname (js ''/api/kv/motd'') = js ''/api/kv/motd'' \<and>
   handleFetch sample_platform open_env sample_world
     \<lparr>req_method = js ''POST'', req_pathname = js ''/api/kv'', req_authorization = None,
      req_body = JsonBody (JObj [(js ''key'', JStr (js ''motd'')),
                                 (js ''value'', JArr [JNum 15 (- 1), JStr (js ''x'')])])\<rparr>
   = (Inr (json_response 200 (JSON_stringify (JObj
        [(js ''success'', JBool True), (js ''key'', JStr (js ''motd''))]))),
      sample_world\<lparr>STORAGE := [js ''motd'' \<mapsto> JSON_stringify (JArr [JNum 15 (- 1), JStr (js ''x'')])]\<rparr>) \<and>
   handleFetch sample_platform open_env
     (sample_world\<lparr>STORAGE := [js ''motd'' \<mapsto> JSON_stringify (JArr [JNum 15 (- 1), JStr (js ''x'')])]\<rparr>)
     \<lparr>req_method = js ''GET'', req_pathname = url_pathname (js ''/api/kv/motd''),
      req_authorization = None, req_body = OtherBody\<rparr>
   = (Inr (json_response 200 (JSON_stringify (JArr [JNum 15 (- 1), JStr (js ''x'')]))),
      sample_world\<lparr>STORAGE := [js ''motd'' \<mapsto> JSON_stringify (JArr [JNum 15 (- 1), JStr (js ''x'')])]\<rparr>)"
proof -
  have p: "js ''/api/kv/motd'' = js ''/api/kv/'' @ js ''motd''"
    by (simp add: js_def)
  have u: "url_pathname (js ''/api/kv/'' @ js ''motd'') = js ''/api/kv/'' @ js ''motd''"
    by (rule url_pathname_kv_plain) (simp_all add: js_def plain_char_def)
  have w: "sample_world\<lparr>STORAGE := [js ''motd'' \<mapsto> JSON_stringify (JArr [JNum 15 (- 1), JStr (js ''x'')])]\<rparr>
      = sample_world\<lparr>STORAGE := (STORAGE sample_world)(js ''motd'' \<mapsto> JSON_stringify (JArr [JNum 15 (- 1), JStr (js ''x'')]))\<rparr>"
    by (simp add: sample_world_def)
  have "req_pathname \<lparr>req_method = js ''GET'', req_pathname = url_pathname (js ''/api/kv/motd''),
      req_authorization = None, req_body = OtherBody\<rparr> = url_pathname (js ''/api/kv/'' @ js ''motd'')"
    using p by simp
  note t = kv_round_trip [OF verifyBasicAuth_open verifyBasicAuth_open _ _ _ _ this w, of
      "\<lparr>req_method = js ''POST'', req_pathname = js ''/api/kv'', req_authorization = None,
        req_body = JsonBody (JObj [(js ''key'', JStr (js ''motd'')),
                                 (js ''value'', JArr [JNum 15 (- 1), JStr (js ''x'')])])\<rparr>"
      sample_platform]
  from t u p show ?thesis by simp
qed

text \<open>
  C2 fails for a key the URL parser changes. The value stored under the key \<^verbatim>\<open>a b\<close> is
  asked for with the path \<^verbatim>\<open>/api/kv/a%20b\<close>, which the worker does not decode: it looks
  up the key \<^verbatim>\<open>a%20b\<close> and answers with status 404.
\<close>

theorem kv_key_with_space_is_lost:
  "handleFetch sample_platform open_env sample_world
     \<lparr>req_method = js ''POST'', req_pathname = js ''/api/kv'', req_authorization = None,
      req_body = JsonBody (JObj [(js ''key'', JStr (js ''a b'')), (js ''value'', JBool True)])\<rparr>
   = (Inr (json_response 200 (JSON_stringify (JObj
        [(js ''success'', JBool True), (js ''key'', JStr (js ''a b''))]))),
      sample_world\<lparr>STORAGE := [js ''a b'' \<mapsto> js ''true'']\<rparr>) \<and>
   url_pathname (js ''/api/kv/a b'') = js ''/api/kv/a%20b'' \<and>
   handleFetch sample_platform open_env (sample_world\<lparr>STORAGE := [js ''a b'' \<mapsto> js ''true'']\<rparr>)
     \<lparr>req_method = js ''GET'', req_pathname = url_pathname (js ''/api/kv/a b''),
      req_authorization = None, req_body = OtherBody\<rparr>
   = (Inr (text_response 404 (js ''Not found'')),
      sample_world\<lparr>STORAGE := [js ''a b'' \<mapsto> js ''true'']\<rparr>)"
proof -
  have u: "url_pathname (js ''/api/kv/a b'') = js ''/api/kv/a%20b''"
    by (simp add: url_pathname_def strip_trailing_def high_surrogate_def low_surrogate_def
        utf8_percent_encode_def path_percent_encode_set_def utf8_def percent_byte_def
        upper_hex_digit_def end_segment_def single_dot_def double_dot_def js_def)
  have post: "handleFetch sample_platform open_env sample_world
     \<lparr>req_method = js ''POST'', req_pathname = js ''/api/kv'', req_authorization = None,
      req_body = JsonBody (JObj [(js ''key'', JStr (js ''a b'')), (js ''value'', JBool True)])\<rparr>
   = (Inr (json_response 200 (JSON_stringify (JObj
        [(js ''success'', JBool True), (js ''key'', JStr (js ''a b''))]))),
      sample_world\<lparr>STORAGE := [js ''a b'' \<mapsto> js ''true'']\<rparr>)"
    by (simp add: handleFetch_def verifyBasicAuth_open dispatch_def kv_post_def request_json_def kv_put_def stringify_def
        sample_world_def js_def)
  have get: "handleFetch sample_platform open_env (sample_world\<lparr>STORAGE := [js ''a b'' \<mapsto> js ''true'']\<rparr>)
     \<lparr>req_method = js ''GET'', req_pathname = js ''/api/kv/a%20b'',
      req_authorization = None, req_body = OtherBody\<rparr>
   = (Inr (text_response 404 (js ''Not found'')),
      sample_world\<lparr>STORAGE := [js ''a b'' \<mapsto> js ''true'']\<rparr>)"
    by (simp add: handleFetch_def verifyBasicAuth_open dispatch_def kv_get_def js_def)
  from post u get show ?thesis by simp
qed

section \<open>No password configured\<close>

text \<open>
  C3. When no password is configured (the variable is unset or empty),
  \<^verbatim>\<open>verifyBasicAuth\<close> lets every request pass, whatever its headers, and every variant
  of the dispatcher goes on to its routes.
\<close>

theorem no_password_allows_every_request:
  assumes "SERVER_PASSWORD e = None \<or> SERVER_PASSWORD e = Some []"
  shows "verifyBasicAuth e request = Inr None \<and>
    handleFetch P e w request = dispatch P w request \<and>
    handleFetch_kv_d1 P e w request = dispatch_kv_d1 P w request \<and>
    handleFetch_kv e w request = dispatch_kv w request"
proof -
  from assms have "verifyBasicAuth e request = Inr None"
    by (auto simp: verifyBasicAuth_def falsy_def)
  with handleFetch_allowed [OF this] show ?thesis by simp
qed

text \<open>A request with a header of another scheme, on a configuration without password.\<close>

theorem no_password_allows_every_request_witness:
  "SERVER_PASSWORD open_env = None \<and>
   verifyBasicAuth open_env
     \<lparr>req_method = js ''GET'', req_pathname = js ''/api/kv/a'',
      req_authorization = Some (js ''Bearer nothing''), req_body = OtherBody\<rparr> = Inr None \<and>
   handleFetch sample_platform open_env sample_world
     \<lparr>req_method = js ''GET'', req_pathname = js ''/api/kv/a'',
      req_authorization = Some (js ''Bearer nothing''), req_body = OtherBody\<rparr>
   = (Inr (text_response 404 (js ''Not found'')), sample_world)"
proof -
  let ?r = "\<lparr>req_method = js ''GET'', req_pathname = js ''/api/kv/a'',
      req_authorization = Some (js ''Bearer nothing''), req_body = OtherBody\<rparr>"
  have h: "SERVER_PASSWORD open_env = None \<or> SERVER_PASSWORD open_env = Some []"
    by (simp add: open_env_def)
  have "dispatch sample_platform sample_world ?r = (Inr (text_response 404 (js ''Not found'')), sample_world)"
    by (simp add: dispatch_def kv_get_def sample_world_def js_def)
  with no_password_allows_every_request [OF h, of ?r sample_platform sample_world]
  show ?thesis by (simp add: open_env_def)
qed

section \<open>The challenge\<close>

text \<open>
  C4. When a non-empty password is configured and the request has no
  \<^verbatim>\<open>Authorization\<close> header, or one that does not start with \<^verbatim>\<open>Basic \<close>, every variant
  of the dispatcher answers with status 401 and the header
  \<^verbatim>\<open>WWW-Authenticate: Basic realm="Agent"\<close>, and leaves the world as it was.
\<close>

theorem missing_or_foreign_authorization_is_challenged:
  assumes "SERVER_PASSWORD e = Some p" and "p \<noteq> []"
    and "req_authorization request = None \<or>
         (\<exists>a. req_authorization request = Some a \<and> \<not> startsWith a (js ''Basic ''))"
  shows "handleFetch P e w request = (Inr challenge, w) \<and>
    handleFetch_kv_d1 P e w request = (Inr challenge, w) \<and>
    handleFetch_kv e w request = (Inr challenge, w) \<and>
    status challenge = 401 \<and>
    map_of (headers challenge) (js ''www-authenticate'') =
      Some (js ''Basic realm='' @ 34 # js ''Agent'' @ [34])"
proof -
  from assms have "verifyBasicAuth e request = Inr (Some challenge)"
    by (auto simp: verifyBasicAuth_def falsy_def)
  from handleFetch_rejected [OF this] show ?thesis
    by (simp add: challenge_def)
qed

text \<open>
  A request without the header, and one whose header spells the scheme in lower case.
\<close>

theorem missing_or_foreign_authorization_is_challenged_witness:
  "handleFetch sample_platform sample_env sample_world
     \<lparr>req_method = js ''POST'', req_pathname = js ''/api/db/init'',
      req_authorization = None, req_body = OtherBody\<rparr> = (Inr challenge, sample_world) \<and>
   handleFetch sample_platform sample_env sample_world
     \<lparr>req_method = js ''POST'', req_pathname = js ''/api/db/init'',
      req_authorization = Some (js ''basic YWRtaW46c2VjcmV0''), req_body = OtherBody\<rparr>
     = (Inr challenge, sample_world) \<and>
   status challenge = 401 \<and>
   map_of (headers challenge) (js ''www-authenticate'') =
      Some (js ''Basic realm='' @ 34 # js ''Agent'' @ [34])"
proof -
  have p: "SERVER_PASSWORD sample_env = Some (js ''secret'')" and ne: "js ''secret'' \<noteq> []"
    by (simp_all add: sample_env_def js_def)
  have n: "\<not> startsWith (js ''basic YWRtaW46c2VjcmV0'') (js ''Basic '')"
    by (simp add: js_def)
  show ?thesis
    using missing_or_foreign_authorization_is_challenged [OF p ne, of
        "\<lparr>req_method = js ''POST'', req_pathname = js ''/api/db/init'',
          req_authorization = None, req_body = OtherBody\<rparr>" sample_platform sample_world]
      missing_or_foreign_authorization_is_challenged [OF p ne, of
        "\<lparr>req_method = js ''POST'', req_pathname = js ''/api/db/init'',
          req_authorization = Some (js ''basic YWRtaW46c2VjcmV0''), req_body = OtherBody\<rparr>"
        sample_platform sample_world] n
    by simp
qed

section \<open>Faults of the database\<close>

text \<open>
  C5. For an authenticated \<^verbatim>\<open>POST /api/db/query\<close> with the body
  \<^verbatim>\<open>{sql, params}\<close>: when the statement throws, the answer is status 400 with the JSON
  body \<^verbatim>\<open>{success: false, error: message}\<close> (a response, not a fault); when it
  returns, the answer is status 200 with \<^verbatim>\<open>{success: true, result}\<close>. This holds of
  the full variant and of the variant of \<^verbatim>\<open>src/index.ts\<close>.
\<close>

theorem query_faults_are_caught:
  assumes "verifyBasicAuth e request = Inr None"
    and "req_method request = js ''POST''" and "req_pathname request = js ''/api/db/query''"
    and "req_body request = JsonBody (JObj [(js ''sql'', sql), (js ''params'', params)])"
  shows "(d1_all P (DB w) (Some sql) params = (Inl message, db) \<longrightarrow>
       handleFetch P e w request =
         (Inr (json_response 400 (JSON_stringify (JObj
            [(js ''success'', JBool False), (js ''error'', JStr message)]))), w\<lparr>DB := db\<rparr>) \<and>
       handleFetch_kv_d1 P e w request =
         (Inr (json_response 400 (JSON_stringify (JObj
            [(js ''success'', JBool False), (js ''error'', JStr message)]))), w\<lparr>DB := db\<rparr>)) \<and>
     (d1_all P (DB w) (Some sql) params = (Inr result, db) \<longrightarrow>
       handleFetch P e w request =
         (Inr (json_response 200 (JSON_stringify (JObj
            [(js ''success'', JBool True), (js ''result'', result)]))), w\<lparr>DB := db\<rparr>) \<and>
       handleFetch_kv_d1 P e w request =
         (Inr (json_response 200 (JSON_stringify (JObj
            [(js ''success'', JBool True), (js ''result'', result)]))), w\<lparr>DB := db\<rparr>))"
  using handleFetch_allowed [OF assms(1), of P w] dispatch_db_query [OF assms(3,2), of P w]
    db_query_object [OF assms(4), of P w]
  by simp

text \<open>A statement the sample database refuses, and one it runs.\<close>

theorem query_faults_are_caught_witness:
  "handleFetch sample_platform open_env sample_world
     \<lparr>req_method = js ''POST'', req_pathname = js ''/api/db/query'', req_authorization = None,
      req_body = JsonBody (JObj [(js ''sql'', JStr (js ''SELEC 1'')), (js ''params'', JArr [])])\<rparr>
   = (Inr (json_response 400 (JSON_stringify (JObj
        [(js ''success'', JBool False), (js ''error'', JStr (js ''syntax error''))]))),
      sample_world\<lparr>DB := 0\<rparr>) \<and>
   handleFetch sample_platform open_env sample_world
     \<lparr>req_method = js ''POST'', req_pathname = js ''/api/db/query'', req_authorization = None,
      req_body = JsonBody (JObj [(js ''sql'', JStr (js ''SELECT 1'')), (js ''params'', JArr [])])\<rparr>
   = (Inr (json_response 200 (JSON_stringify (JObj
        [(js ''success'', JBool True),
         (js ''result'', JObj [(js ''success'', JBool True),
                      (js ''results'', JArr [JObj [(js ''1'', JNum 1 0)]])])]))),
      sample_world\<lparr>DB := 1\<rparr>)"
proof -
  have bad: "d1_all sample_platform (DB sample_world) (Some (JStr (js ''SELEC 1''))) (JArr [])
      = (Inl (js ''syntax error''), 0)"
    by (simp add: sample_platform_def sample_world_def js_def)
  have good: "d1_all sample_platform (DB sample_world) (Some (JStr (js ''SELECT 1''))) (JArr [])
      = (Inr (JObj [(js ''success'', JBool True),
                      (js ''results'', JArr [JObj [(js ''1'', JNum 1 0)]])]), 1)"
    by (simp add: sample_platform_def sample_world_def)
  note t1 = query_faults_are_caught [OF verifyBasicAuth_open, where
      request = "\<lparr>req_method = js ''POST'', req_pathname = js ''/api/db/query'',
        req_authorization = None,
        req_body = JsonBody (JObj [(js ''sql'', JStr (js ''SELEC 1'')), (js ''params'', JArr [])])\<rparr>"
      and sql = "JStr (js ''SELEC 1'')" and params = "JArr []" and P = sample_platform
      and w = sample_world and message = "js ''syntax error''" and db = 0]
  note t2 = query_faults_are_caught [OF verifyBasicAuth_open, where
      request = "\<lparr>req_method = js ''POST'', req_pathname = js ''/api/db/query'',
        req_authorization = None,
        req_body = JsonBody (JObj [(js ''sql'', JStr (js ''SELECT 1'')), (js ''params'', JArr [])])\<rparr>"
      and sql = "JStr (js ''SELECT 1'')" and params = "JArr []" and P = sample_platform
      and w = sample_world and db = 1
      and result = "JObj [(js ''success'', JBool True), (js ''results'', JArr [JObj [(js ''1'', JNum 1 0)]])]"]
  from t1 t2 bad good show ?thesis by simp
qed

section \<open>Rejected requests\<close>

text \<open>
  C6. A request that \<^verbatim>\<open>verifyBasicAuth\<close> rejects is answered at once with the
  rejection, by every variant of the dispatcher and on every platform: no route runs,
  and the key-value store, the bucket and the database are as before.
\<close>

theorem rejection_runs_no_operation:
  assumes "verifyBasicAuth e request = Inr (Some rejection)"
  shows "handleFetch P e w request = (Inr rejection, w) \<and>
    handleFetch_kv_d1 P e w request = (Inr rejection, w) \<and>
    handleFetch_kv e w request = (Inr rejection, w)"
  using assms by (rule handleFetch_rejected)

text \<open>A \<^verbatim>\<open>POST /api/kv\<close> with wrong credentials writes nothing.\<close>

theorem rejection_runs_no_operation_witness:
  "verifyBasicAuth sample_env
     \<lparr>req_method = js ''POST'', req_pathname = js ''/api/kv'',
      req_authorization = Some (js ''Basic d3Jvbmc=''),
      req_body = JsonBody (JObj [(js ''key'', JStr (js ''k'')), (js ''value'', JNum 1 0)])\<rparr>
     = Inr (Some (text_response 401 (js ''Unauthorized''))) \<and>
   handleFetch sample_platform sample_env sample_world
     \<lparr>req_method = js ''POST'', req_pathname = js ''/api/kv'',
      req_authorization = Some (js ''Basic d3Jvbmc=''),
      req_body = JsonBody (JObj [(js ''key'', JStr (js ''k'')), (js ''value'', JNum 1 0)])\<rparr>
     = (Inr (text_response 401 (js ''Unauthorized'')), sample_world)"
proof -
  let ?r = "\<lparr>req_method = js ''POST'', req_pathname = js ''/api/kv'',
      req_authorization = Some (js ''Basic d3Jvbmc=''),
      req_body = JsonBody (JObj [(js ''key'', JStr (js ''k'')), (js ''value'', JNum 1 0)])\<rparr>"
  have v: "verifyBasicAuth sample_env ?r = Inr (Some (text_response 401 (js ''Unauthorized'')))"
    by (simp add: verifyBasicAuth_def sample_env_def falsy_def template_def btoa_def latin1_def
        b64_digit_def b64_alphabet_def js_def)
  from rejection_runs_no_operation [OF v, of sample_platform sample_world] v
  show ?thesis by simp
qed

section \<open>The size of a stored value\<close>

text \<open>
  C7 asks that a \<^verbatim>\<open>POST /api/kv\<close> whose value serialises to more than
  \<^verbatim>\<open>maxValueSize\<close> (25 MiB) fails with status 413 and writes nothing. The source does
  otherwise: \<^verbatim>\<open>checkLimits\<close> would answer such a size with status 413, but no route
  calls it, so the request is answered with status 200 and the value is written.
\<close>

theorem oversized_value_is_written:
  assumes "verifyBasicAuth e request = Inr None"
    and "req_method request = js ''POST''" and "req_pathname request = js ''/api/kv''"
    and "req_body request = JsonBody (JObj [(js ''key'', JStr K), (js ''value'', V)])"
    and "kv_maxValueSize < length (JSON_stringify V)"
  shows "map_option status (checkLimits KV (length (JSON_stringify V))) = Some 413 \<and>
    handleFetch P e w request =
      (Inr (json_response 200 (JSON_stringify (JObj
         [(js ''success'', JBool True), (js ''key'', JStr K)]))),
       w\<lparr>STORAGE := (STORAGE w)(K \<mapsto> JSON_stringify V)\<rparr>) \<and>
    status (json_response 200 (JSON_stringify (JObj
         [(js ''success'', JBool True), (js ''key'', JStr K)]))) = 200"
proof -
  have "map_option status (checkLimits KV (length (JSON_stringify V))) = Some 413"
    using assms(5) by (simp add: checkLimits_def)
  moreover have "handleFetch P e w request =
      (Inr (json_response 200 (JSON_stringify (JObj
         [(js ''success'', JBool True), (js ''key'', JStr K)]))),
       w\<lparr>STORAGE := (STORAGE w)(K \<mapsto> JSON_stringify V)\<rparr>)"
    using handleFetch_allowed [OF assms(1), of P w] dispatch_kv_post [OF assms(3,2), of P w]
      kv_post_object [OF assms(4), of P w]
    by simp
  ultimately show ?thesis by (simp add: json_response_def)
qed

text \<open>A value of 26214400 letters, whose JSON text is two code units longer.\<close>

theorem oversized_value_is_written_witness:
  "kv_maxValueSize < length (JSON_stringify (JStr (replicate 26214400 97))) \<and>
   map_option status (checkLimits KV (length (JSON_stringify (JStr (replicate 26214400 97))))) = Some 413 \<and>
   handleFetch sample_platform open_env sample_world
     \<lparr>req_method = js ''POST'', req_pathname = js ''/api/kv'', req_authorization = None,
      req_body = JsonBody (JObj [(js ''key'', JStr (js ''big'')),
                                 (js ''value'', JStr (replicate 26214400 97))])\<rparr>
   = (Inr (json_response 200 (JSON_stringify (JObj
        [(js ''success'', JBool True), (js ''key'', JStr (js ''big''))]))),
      sample_world\<lparr>STORAGE := (STORAGE sample_world)(js ''big'' \<mapsto>
         JSON_stringify (JStr (replicate 26214400 97)))\<rparr>)"
proof -
  have big: "kv_maxValueSize < length (JSON_stringify (JStr (replicate 26214400 97)))"
    using length_stringify_JStr [of "replicate 26214400 97"]
    by (simp add: kv_maxValueSize_def del: JSON_stringify.simps)
  have m: "req_method \<lparr>req_method = js ''POST'', req_pathname = js ''/api/kv'', req_authorization = None,
      req_body = JsonBody (JObj [(js ''key'', JStr (js ''big'')),
                                 (js ''value'', JStr (replicate 26214400 97))])\<rparr> = js ''POST''"
    by simp
  have p: "req_pathname \<lparr>req_method = js ''POST'', req_pathname = js ''/api/kv'', req_authorization = None,
      req_body = JsonBody (JObj [(js ''key'', JStr (js ''big'')),
                                 (js ''value'', JStr (replicate 26214400 97))])\<rparr> = js ''/api/kv''"
    by simp
  have b: "req_body \<lparr>req_method = js ''POST'', req_pathname = js ''/api/kv'', req_authorization = None,
      req_body = JsonBody (JObj [(js ''key'', JStr (js ''big'')),
                                 (js ''value'', JStr (replicate 26214400 97))])\<rparr>
      = JsonBody (JObj [(js ''key'', JStr (js ''big'')), (js ''value'', JStr (replicate 26214400 97))])"
    by simp
  from oversized_value_is_written [OF verifyBasicAuth_open m p b big, of sample_platform sample_world] big
  show ?thesis by blast
qed

section \<open>The bodies of handled failures\<close>

text \<open>
  C8, as the source has it. Every handled failure is answered with its status code and
  a body that describes it: a rejected credential check with status 401 and
  \<^verbatim>\<open>Unauthorized\<close>, a missing key with 404 and \<^verbatim>\<open>Not found\<close>, a missing object with
  404 and \<^verbatim>\<open>File not found\<close>, an upload without file with 400 and
  \<^verbatim>\<open>No file provided\<close>, and a statement that throws with 400 and the JSON body
  \<^verbatim>\<open>{success: false, error: message}\<close>. Only the last body is JSON; the other four
  are plain text.
\<close>

theorem handled_failures:
  "(verifyBasicAuth e r = Inr (Some resp) \<longrightarrow>
      handleFetch P e w r = (Inr resp, w) \<and> status resp = 401 \<and>
      payload resp = Text (js ''Unauthorized'')) \<and>
   (verifyBasicAuth e r = Inr None \<and> req_method r = js ''GET'' \<and>
    req_pathname r = js ''/api/kv/'' @ K \<and> STORAGE w K = None \<longrightarrow>
      handleFetch P e w r = (Inr (text_response 404 (js ''Not found'')), w)) \<and>
   (verifyBasicAuth e r = Inr None \<and> req_method r = js ''GET'' \<and>
    req_pathname r = js ''/api/files/'' @ K \<and> FILES w K = None \<longrightarrow>
      handleFetch P e w r = (Inr (text_response 404 (js ''File not found'')), w)) \<and>
   (verifyBasicAuth e r = Inr None \<and> req_method r = js ''POST'' \<and>
    req_pathname r = js ''/api/files'' \<and> req_body r = FormBody form \<and>
    map_of form (js ''file'') = None \<longrightarrow>
      handleFetch P e w r = (Inr (text_response 400 (js ''No file provided'')), w)) \<and>
   (verifyBasicAuth e r = Inr None \<and> req_method r = js ''POST'' \<and>
    req_pathname r = js ''/api/db/query'' \<and>
    req_body r = JsonBody (JObj [(js ''sql'', sql), (js ''params'', params)]) \<and>
    d1_all P (DB w) (Some sql) params = (Inl message, db) \<longrightarrow>
      handleFetch P e w r =
        (Inr (json_response 400 (JSON_stringify (JObj
           [(js ''success'', JBool False), (js ''error'', JStr message)]))), w\<lparr>DB := db\<rparr>) \<and>
      begins_json (JSON_stringify (JObj
           [(js ''success'', JBool False), (js ''error'', JStr message)]))) \<and>
   \<not> begins_json (js ''Unauthorized'') \<and> \<not> begins_json (js ''Not found'') \<and>
   \<not> begins_json (js ''File not found'') \<and> \<not> begins_json (js ''No file provided'')"
proof (intro conjI impI)
  assume a: "verifyBasicAuth e r = Inr (Some resp)"
  from handleFetch_rejected [OF a, of P w] show "handleFetch P e w r = (Inr resp, w)" by simp
  from verifyBasicAuth_rejection [OF a] show "status resp = 401"
    by (auto simp: challenge_def text_response_def)
  from verifyBasicAuth_rejection [OF a] show "payload resp = Text (js ''Unauthorized'')"
    by (auto simp: challenge_def text_response_def)
next
  assume "verifyBasicAuth e r = Inr None \<and> req_method r = js ''GET'' \<and>
    req_pathname r = js ''/api/kv/'' @ K \<and> STORAGE w K = None"
  then show "handleFetch P e w r = (Inr (text_response 404 (js ''Not found'')), w)"
    using handleFetch_allowed [of e r P w] dispatch_kv_get [of r K P w]
      kv_get_absent [of r "js ''/api/kv/''" K w]
    by simp
next
  assume "verifyBasicAuth e r = Inr None \<and> req_method r = js ''GET'' \<and>
    req_pathname r = js ''/api/files/'' @ K \<and> FILES w K = None"
  then show "handleFetch P e w r = (Inr (text_response 404 (js ''File not found'')), w)"
    using handleFetch_allowed [of e r P w] dispatch_files_get [of r K P w]
      files_get_absent [of r K w]
    by simp
next
  assume "verifyBasicAuth e r = Inr None \<and> req_method r = js ''POST'' \<and>
    req_pathname r = js ''/api/files'' \<and> req_body r = FormBody form \<and>
    map_of form (js ''file'') = None"
  then show "handleFetch P e w r = (Inr (text_response 400 (js ''No file provided'')), w)"
    using handleFetch_allowed [of e r P w] dispatch_files_post [of r P w]
      files_post_missing [of r form P w]
    by simp
next
  assume "verifyBasicAuth e r = Inr None \<and> req_method r = js ''POST'' \<and>
    req_pathname r = js ''/api/db/query'' \<and>
    req_body r = JsonBody (JObj [(js ''sql'', sql), (js ''params'', params)]) \<and>
    d1_all P (DB w) (Some sql) params = (Inl message, db)"
  then show "handleFetch P e w r =
        (Inr (json_response 400 (JSON_stringify (JObj
           [(js ''success'', JBool False), (js ''error'', JStr message)]))), w\<lparr>DB := db\<rparr>)"
    using handleFetch_allowed [of e r P w] dispatch_db_query [of r P w]
      db_query_object [of r sql params P w]
    by simp
next
  show "begins_json (JSON_stringify (JObj
           [(js ''success'', JBool False), (js ''error'', JStr message)]))"
    by (rule begins_json_stringify)
qed (simp_all add: begins_json_def js_def)

text \<open>The five failures on the sample data.\<close>

theorem handled_failures_witness:
  "handleFetch sample_platform sample_env sample_world
     \<lparr>req_method = js ''GET'', req_pathname = js ''/api/kv/a'',
      req_authorization = Some (js ''Basic d3Jvbmc=''), req_body = OtherBody\<rparr>
   = (Inr (text_response 401 (js ''Unauthorized'')), sample_world) \<and>
   handleFetch sample_platform open_env sample_world
     \<lparr>req_method = js ''GET'', req_pathname = js ''/api/kv/a'',
      req_authorization = None, req_body = OtherBody\<rparr>
   = (Inr (text_response 404 (js ''Not found'')), sample_world) \<and>
   handleFetch sample_platform open_env sample_world
     \<lparr>req_method = js ''GET'', req_pathname = js ''/api/files/a'',
      req_authorization = None, req_body = OtherBody\<rparr>
   = (Inr (text_response 404 (js ''File not found'')), sample_world) \<and>
   handleFetch sample_platform open_env sample_world
     \<lparr>req_method = js ''POST'', req_pathname = js ''/api/files'',
      req_authorization = None, req_body = FormBody []\<rparr>
   = (Inr (text_response 400 (js ''No file provided'')), sample_world) \<and>
   handleFetch sample_platform open_env sample_world
     \<lparr>req_method = js ''POST'', req_pathname = js ''/api/db/query'', req_authorization = None,
      req_body = JsonBody (JObj [(js ''sql'', JStr (js ''SELEC 1'')), (js ''params'', JArr [])])\<rparr>
   = (Inr (json_response 400 (JSON_stringify (JObj
        [(js ''success'', JBool False), (js ''error'', JStr (js ''syntax error''))]))),
      sample_world\<lparr>DB := 0\<rparr>)"
proof -
  let ?wrong = "\<lparr>req_method = js ''GET'', req_pathname = js ''/api/kv/a'',
      req_authorization = Some (js ''Basic d3Jvbmc=''), req_body = OtherBody\<rparr>"
  have v: "verifyBasicAuth sample_env ?wrong = Inr (Some (text_response 401 (js ''Unauthorized'')))"
    by (simp add: verifyBasicAuth_def sample_env_def falsy_def template_def btoa_def latin1_def
        b64_digit_def b64_alphabet_def js_def)
  have kv: "js ''/api/kv/a'' = js ''/api/kv/'' @ js ''a''"
    and fl: "js ''/api/files/a'' = js ''/api/files/'' @ js ''a''"
    by (simp_all add: js_def)
  have none: "STORAGE sample_world (js ''a'') = None" "FILES sample_world (js ''a'') = None"
    by (simp_all add: sample_world_def)
  have bad: "d1_all sample_platform (DB sample_world) (Some (JStr (js ''SELEC 1''))) (JArr [])
      = (Inl (js ''syntax error''), 0)"
    by (simp add: sample_platform_def sample_world_def js_def)
  have "handleFetch sample_platform sample_env sample_world ?wrong
      = (Inr (text_response 401 (js ''Unauthorized'')), sample_world)"
    using handled_failures [where e = sample_env and r = ?wrong
        and resp = "text_response 401 (js ''Unauthorized'')" and P = sample_platform
        and w = sample_world] v
    by simp
  moreover have "handleFetch sample_platform open_env sample_world
     \<lparr>req_method = js ''GET'', req_pathname = js ''/api/kv/a'',
      req_authorization = None, req_body = OtherBody\<rparr>
   = (Inr (text_response 404 (js ''Not found'')), sample_world)"
    using handled_failures [where e = open_env and P = sample_platform and w = sample_world
        and K = "js ''a''" and r = "\<lparr>req_method = js ''GET'', req_pathname = js ''/api/kv/a'',
      req_authorization = None, req_body = OtherBody\<rparr>"] verifyBasicAuth_open kv none
    by simp
  moreover have "handleFetch sample_platform open_env sample_world
     \<lparr>req_method = js ''GET'', req_pathname = js ''/api/files/a'',
      req_authorization = None, req_body = OtherBody\<rparr>
   = (Inr (text_response 404 (js ''File not found'')), sample_world)"
    using handled_failures [where e = open_env and P = sample_platform and w = sample_world
        and K = "js ''a''" and r = "\<lparr>req_method = js ''GET'', req_pathname = js ''/api/files/a'',
      req_authorization = None, req_body = OtherBody\<rparr>"] verifyBasicAuth_open fl none
    by simp
  moreover have "handleFetch sample_platform open_env sample_world
     \<lparr>req_method = js ''POST'', req_pathname = js ''/api/files'',
      req_authorization = None, req_body = FormBody []\<rparr>
   = (Inr (text_response 400 (js ''No file provided'')), sample_world)"
    using handled_failures [where e = open_env and P = sample_platform and w = sample_world
        and form = "[]" and r = "\<lparr>req_method = js ''POST'', req_pathname = js ''/api/files'',
      req_authorization = None, req_body = FormBody []\<rparr>"] verifyBasicAuth_open
    by simp
  moreover have "handleFetch sample_platform open_env sample_world
     \<lparr>req_method = js ''POST'', req_pathname = js ''/api/db/query'', req_authorization = None,
      req_body = JsonBody (JObj [(js ''sql'', JStr (js ''SELEC 1'')), (js ''params'', JArr [])])\<rparr>
   = (Inr (json_response 400 (JSON_stringify (JObj
        [(js ''success'', JBool False), (js ''error'', JStr (js ''syntax error''))]))),
      sample_world\<lparr>DB := 0\<rparr>)"
    using handled_failures [where e = open_env and P = sample_platform and w = sample_world
        and sql = "JStr (js ''SELEC 1'')" and params = "JArr []"
        and message = "js ''syntax error''" and db = 0
        and r = "\<lparr>req_method = js ''POST'', req_pathname = js ''/api/db/query'',
          req_authorization = None,
          req_body = JsonBody (JObj [(js ''sql'', JStr (js ''SELEC 1'')), (js ''params'', JArr [])])\<rparr>"]
      verifyBasicAuth_open bad
    by simp
  ultimately show ?thesis by blast
qed

text \<open>
  C8 as stated fails: the answer to a request without credentials has the body
  \<^verbatim>\<open>Unauthorized\<close>, which is no JSON text (every text \<^verbatim>\<open>JSON.stringify\<close> produces
  satisfies \<open>begins_json\<close>, by \<open>begins_json_stringify\<close>).
\<close>

theorem unauthorized_body_is_plain_text:
  "handleFetch sample_platform sample_env sample_world
     \<lparr>req_method = js ''GET'', req_pathname = js ''/api/status'',
      req_authorization = None, req_body = OtherBody\<rparr>
   = (Inr \<lparr>status = 401,
           headers = [(js ''www-authenticate'', js ''Basic realm='' @ 34 # js ''Agent'' @ [34])],
           payload = Text (js ''Unauthorized'')\<rparr>, sample_world) \<and>
   \<not> begins_json (js ''Unauthorized'')"
  by (simp add: handleFetch_def verifyBasicAuth_def sample_env_def falsy_def challenge_def
      begins_json_def js_def)

section \<open>The upload round trip\<close>

text \<open>
  C9, for names the URL parser leaves as they are. For an authenticated
  \<^verbatim>\<open>POST /api/files\<close> with a form body: when the form has no field \<^verbatim>\<open>file\<close>, or the
  field is an empty text, the answer is status 400; when the field is a file, the answer
  is status 200 with the key \<^verbatim>\<open>uploads/<clock>-<file name>\<close> and the object is written
  under that key. When the URL parser returns the path \<^verbatim>\<open>/api/files/<key>\<close> unchanged,
  an authenticated \<^verbatim>\<open>GET\<close> of that path on the world the upload leaves answers with
  status 200, the bytes of the file, its content type and the entity tag of the bucket.
  By \<open>url_pathname_upload_plain\<close> the parser returns the path unchanged for every file
  name of ASCII letters, digits and \<^verbatim>\<open>- . _ ~\<close>.
\<close>

theorem upload_round_trip:
  assumes "verifyBasicAuth e upload = Inr None" and "verifyBasicAuth e download = Inr None"
    and "req_method upload = js ''POST''" and "req_pathname upload = js ''/api/files''"
    and "req_body upload = FormBody form"
    and "key = js ''uploads/'' @ show_nat (now w) @ js ''-'' @ file_name f"
    and "req_method download = js ''GET''"
    and "req_pathname download = url_pathname (js ''/api/files/'' @ key)"
    and "w' = w\<lparr>FILES := (FILES w)(key \<mapsto>
           \<lparr>object_body = file_bytes f, contentType = Some (file_type f),
            httpEtag = r2_etag P (file_bytes f)\<rparr>)\<rparr>"
  shows "(map_of form (js ''file'') = None \<or> map_of form (js ''file'') = Some (FormString []) \<longrightarrow>
       handleFetch P e w upload = (Inr (text_response 400 (js ''No file provided'')), w)) \<and>
     (map_of form (js ''file'') = Some (FormFile f) \<longrightarrow>
       handleFetch P e w upload =
         (Inr (json_response 200 (JSON_stringify (JObj
            [(js ''success'', JBool True), (js ''key'', JStr key),
             (js ''url'', JStr (js ''/api/files/'' @ key))]))), w') \<and>
       (url_pathname (js ''/api/files/'' @ key) = js ''/api/files/'' @ key \<longrightarrow>
          handleFetch P e w' download =
            (Inr \<lparr>status = 200,
                  headers = [(js ''content-type'', file_type f),
                             (js ''etag'', r2_etag P (file_bytes f))],
                  payload = Bytes (file_bytes f)\<rparr>, w')))"
proof (intro conjI impI)
  assume "map_of form (js ''file'') = None \<or> map_of form (js ''file'') = Some (FormString [])"
  with files_post_missing [OF assms(5), of P w] files_post_empty_text [OF assms(5), of P w]
  have "files_post P w upload = (Inr (text_response 400 (js ''No file provided'')), w)"
    by auto
  with handleFetch_allowed [OF assms(1), of P w] dispatch_files_post [OF assms(4,3), of P w]
  show "handleFetch P e w upload = (Inr (text_response 400 (js ''No file provided'')), w)"
    by simp
next
  assume "map_of form (js ''file'') = Some (FormFile f)"
  from files_post_file [OF assms(5) this, of P w]
  show "handleFetch P e w upload =
         (Inr (json_response 200 (JSON_stringify (JObj
            [(js ''success'', JBool True), (js ''key'', JStr key),
             (js ''url'', JStr (js ''/api/files/'' @ key))]))), w')"
    using handleFetch_allowed [OF assms(1), of P w] dispatch_files_post [OF assms(4,3), of P w]
      assms(6,9)
    by simp
next
  assume "url_pathname (js ''/api/files/'' @ key) = js ''/api/files/'' @ key"
  with assms(8) have path: "req_pathname download = js ''/api/files/'' @ key" by simp
  have "FILES w' key = Some \<lparr>object_body = file_bytes f, contentType = Some (file_type f),
          httpEtag = r2_etag P (file_bytes f)\<rparr>"
    using assms(9) by simp
  from files_get_present [OF path this]
  show "handleFetch P e w' download =
         (Inr \<lparr>status = 200,
               headers = [(js ''content-type'', file_type f),
                          (js ''etag'', r2_etag P (file_bytes f))],
               payload = Bytes (file_bytes f)\<rparr>, w')"
    using handleFetch_allowed [OF assms(2), of P w'] dispatch_files_get [OF path assms(7), of P w']
    by (simp add: writeHttpMetadata_def)
qed

text \<open>A form without file, and the upload and download of the sample file.\<close>

theorem upload_round_trip_witness:
  "handleFetch sample_platform open_env sample_world
     \<lparr>req_method = js ''POST'', req_pathname = js ''/api/files'', req_authorization = None,
      req_body = FormBody [(js ''note'', FormString (js ''hello''))]\<rparr>
   = (Inr (text_response 400 (js ''No file provided'')), sample_world) \<and>
   handleFetch sample_platform open_env sample_world
     \<lparr>req_method = js ''POST'', req_pathname = js ''/api/files'', req_authorization = None,
      req_body = FormBody [(js ''file'', FormFile sample_file)]\<rparr>
   = (Inr (json_response 200 (JSON_stringify (JObj
        [(js ''success'', JBool True), (js ''key'', JStr (js ''uploads/1700000000000-a.txt'')),
         (js ''url'', JStr (js ''/api/files/uploads/1700000000000-a.txt''))]))),
      sample_world\<lparr>FILES := [js ''uploads/1700000000000-a.txt'' \<mapsto>
         \<lparr>object_body = [104, 105], contentType = Some (js ''text/plain''), httpEtag = [34, 50, 34]\<rparr>]\<rparr>) \<and>
   url_pathname (js ''/api/files/uploads/1700000000000-a.txt'')
     = js ''/api/files/uploads/1700000000000-a.txt'' \<and>
   handleFetch sample_platform open_env
     (sample_world\<lparr>FILES := [js ''uploads/1700000000000-a.txt'' \<mapsto>
         \<lparr>object_body = [104, 105], contentType = Some (js ''text/plain''), httpEtag = [34, 50, 34]\<rparr>]\<rparr>)
     \<lparr>req_method = js ''GET'',
      req_pathname = url_pathname (js ''/api/files/uploads/1700000000000-a.txt''),
      req_authorization = None, req_body = OtherBody\<rparr>
   = (Inr \<lparr>status = 200,
           headers = [(js ''content-type'', js ''text/plain''), (js ''etag'', [34, 50, 34])],
           payload = Bytes [104, 105]\<rparr>,
      sample_world\<lparr>FILES := [js ''uploads/1700000000000-a.txt'' \<mapsto>
         \<lparr>object_body = [104, 105], contentType = Some (js ''text/plain''), httpEtag = [34, 50, 34]\<rparr>]\<rparr>)"
proof -
  let ?w' = "sample_world\<lparr>FILES := [js ''uploads/1700000000000-a.txt'' \<mapsto>
         \<lparr>object_body = [104, 105], contentType = Some (js ''text/plain''), httpEtag = [34, 50, 34]\<rparr>]\<rparr>"
  let ?download = "\<lparr>req_method = js ''GET'',
      req_pathname = url_pathname (js ''/api/files/uploads/1700000000000-a.txt''),
      req_authorization = None, req_body = OtherBody\<rparr>"
  have k: "js ''uploads/1700000000000-a.txt''
      = js ''uploads/'' @ show_nat (now sample_world) @ js ''-'' @ file_name sample_file"
    by (simp add: sample_world_def sample_file_def show_nat.simps js_def)
  have pth: "js ''/api/files/uploads/1700000000000-a.txt''
      = js ''/api/files/'' @ js ''uploads/1700000000000-a.txt''"
    by (simp add: js_def)
  have "url_pathname (js ''/api/files/'' @ js ''uploads/'' @ show_nat 1700000000000 @ js ''-'' @ js ''a.txt'')
      = js ''/api/files/'' @ js ''uploads/'' @ show_nat 1700000000000 @ js ''-'' @ js ''a.txt''"
    by (rule url_pathname_upload_plain) (simp add: js_def plain_char_def)
  then have u: "url_pathname (js ''/api/files/uploads/1700000000000-a.txt'')
      = js ''/api/files/uploads/1700000000000-a.txt''"
    by (simp add: show_nat.simps js_def)
  have et: "r2_etag sample_platform [104, 105] = [34, 50, 34]"
    by (simp add: sample_platform_def show_nat.simps quote_def escape_unit_def
        high_surrogate_def low_surrogate_def)
  have f: "file_type sample_file = js ''text/plain''" "file_bytes sample_file = [104, 105]"
    by (simp_all add: sample_file_def)
  have w: "?w' = sample_world\<lparr>FILES := (FILES sample_world)(js ''uploads/1700000000000-a.txt'' \<mapsto>
           \<lparr>object_body = file_bytes sample_file, contentType = Some (file_type sample_file),
            httpEtag = r2_etag sample_platform (file_bytes sample_file)\<rparr>)\<rparr>"
    by (simp add: et f sample_world_def)
  have dp: "req_pathname ?download = url_pathname (js ''/api/files/'' @ js ''uploads/1700000000000-a.txt'')"
    using pth by simp
  have dm: "req_method ?download = js ''GET''" by simp
  note t1 = upload_round_trip [OF verifyBasicAuth_open verifyBasicAuth_open _ _ _ k dm dp w, where
      upload = "\<lparr>req_method = js ''POST'', req_pathname = js ''/api/files'',
        req_authorization = None,
        req_body = FormBody [(js ''note'', FormString (js ''hello''))]\<rparr>"
      and form = "[(js ''note'', FormString (js ''hello''))]"]
  note t2 = upload_round_trip [OF verifyBasicAuth_open verifyBasicAuth_open _ _ _ k dm dp w, where
      upload = "\<lparr>req_method = js ''POST'', req_pathname = js ''/api/files'',
        req_authorization = None,
        req_body = FormBody [(js ''file'', FormFile sample_file)]\<rparr>"
      and form = "[(js ''file'', FormFile sample_file)]"]
  have n: "map_of [(js ''note'', FormString (js ''hello''))] (js ''file'') = None"
    by (simp add: js_def)
  have a: "handleFetch sample_platform open_env sample_world
     \<lparr>req_method = js ''POST'', req_pathname = js ''/api/files'', req_authorization = None,
      req_body = FormBody [(js ''note'', FormString (js ''hello''))]\<rparr>
   = (Inr (text_response 400 (js ''No file provided'')), sample_world)"
    using t1 n by simp
  have b: "handleFetch sample_platform open_env sample_world
     \<lparr>req_method = js ''POST'', req_pathname = js ''/api/files'', req_authorization = None,
      req_body = FormBody [(js ''file'', FormFile sample_file)]\<rparr>
   = (Inr (json_response 200 (JSON_stringify (JObj
        [(js ''success'', JBool True), (js ''key'', JStr (js ''uploads/1700000000000-a.txt'')),
         (js ''url'', JStr (js ''/api/files/'' @ js ''uploads/1700000000000-a.txt''))]))), ?w') \<and>
   handleFetch sample_platform open_env ?w' ?download
   = (Inr \<lparr>status = 200,
           headers = [(js ''content-type'', file_type sample_file),
                      (js ''etag'', r2_etag sample_platform (file_bytes sample_file))],
           payload = Bytes (file_bytes sample_file)\<rparr>, ?w')"
    using t2 u pth by simp
  from a b u show ?thesis
    using pth et f by simp
qed

text \<open>
  C9 fails for a file name the URL parser changes: the file \<^verbatim>\<open>a b.txt\<close> is stored under
  a key with the space, the path the answer names reaches the worker as
  \<^verbatim>\<open>...-a%20b.txt\<close>, and the download answers with status 404. A form whose field
  \<^verbatim>\<open>file\<close> is a text that is not empty gets no response at all: the call of
  \<^verbatim>\<open>file.stream()\<close> throws.
\<close>

theorem upload_name_with_space_is_lost:
  "handleFetch sample_platform open_env sample_world
     \<lparr>req_method = js ''POST'', req_pathname = js ''/api/files'', req_authorization = None,
      req_body = FormBody [(js ''file'', FormFile spaced_file)]\<rparr>
   = (Inr (json_response 200 (JSON_stringify (JObj
        [(js ''success'', JBool True), (js ''key'', JStr (js ''uploads/1700000000000-a b.txt'')),
         (js ''url'', JStr (js ''/api/files/uploads/1700000000000-a b.txt''))]))),
      sample_world\<lparr>FILES := [js ''uploads/1700000000000-a b.txt'' \<mapsto>
         \<lparr>object_body = [104, 105], contentType = Some (js ''text/plain''), httpEtag = [34, 50, 34]\<rparr>]\<rparr>) \<and>
   url_pathname (js ''/api/files/uploads/1700000000000-a b.txt'')
     = js ''/api/files/uploads/1700000000000-a%20b.txt'' \<and>
   handleFetch sample_platform open_env
     (sample_world\<lparr>FILES := [js ''uploads/1700000000000-a b.txt'' \<mapsto>
         \<lparr>object_body = [104, 105], contentType = Some (js ''text/plain''), httpEtag = [34, 50, 34]\<rparr>]\<rparr>)
     \<lparr>req_method = js ''GET'',
      req_pathname = url_pathname (js ''/api/files/uploads/1700000000000-a b.txt''),
      req_authorization = None, req_body = OtherBody\<rparr>
   = (Inr (text_response 404 (js ''File not found'')),
      sample_world\<lparr>FILES := [js ''uploads/1700000000000-a b.txt'' \<mapsto>
         \<lparr>object_body = [104, 105], contentType = Some (js ''text/plain''), httpEtag = [34, 50, 34]\<rparr>]\<rparr>) \<and>
   handleFetch sample_platform open_env sample_world
     \<lparr>req_method = js ''POST'', req_pathname = js ''/api/files'', req_authorization = None,
      req_body = FormBody [(js ''file'', FormString (js ''hello''))]\<rparr>
   = (Inl TypeError, sample_world)"
proof -
  let ?w' = "sample_world\<lparr>FILES := [js ''uploads/1700000000000-a b.txt'' \<mapsto>
         \<lparr>object_body = [104, 105], contentType = Some (js ''text/plain''), httpEtag = [34, 50, 34]\<rparr>]\<rparr>"
  have u: "url_pathname (js ''/api/files/uploads/1700000000000-a b.txt'')
     = js ''/api/files/uploads/1700000000000-a%20b.txt''"
    by (simp add: url_pathname_def strip_trailing_def high_surrogate_def low_surrogate_def
        utf8_percent_encode_def path_percent_encode_set_def utf8_def percent_byte_def
        upper_hex_digit_def end_segment_def single_dot_def double_dot_def js_def)
  have et: "r2_etag sample_platform [104, 105] = [34, 50, 34]"
    by (simp add: sample_platform_def show_nat.simps quote_def escape_unit_def
        high_surrogate_def low_surrogate_def)
  have post: "handleFetch sample_platform open_env sample_world
     \<lparr>req_method = js ''POST'', req_pathname = js ''/api/files'', req_authorization = None,
      req_body = FormBody [(js ''file'', FormFile spaced_file)]\<rparr>
   = (Inr (json_response 200 (JSON_stringify (JObj
        [(js ''success'', JBool True), (js ''key'', JStr (js ''uploads/1700000000000-a b.txt'')),
         (js ''url'', JStr (js ''/api/files/uploads/1700000000000-a b.txt''))]))), ?w')"
    using et
    by (simp add: handleFetch_def verifyBasicAuth_open dispatch_def files_post_def
        request_formData_def spaced_file_def sample_world_def show_nat.simps Let_def js_def)
  have get: "handleFetch sample_platform open_env ?w'
     \<lparr>req_method = js ''GET'', req_pathname = js ''/api/files/uploads/1700000000000-a%20b.txt'',
      req_authorization = None, req_body = OtherBody\<rparr>
   = (Inr (text_response 404 (js ''File not found'')), ?w')"
    by (simp add: handleFetch_def verifyBasicAuth_open dispatch_def files_get_def js_def)
  have str: "handleFetch sample_platform open_env sample_world
     \<lparr>req_method = js ''POST'', req_pathname = js ''/api/files'', req_authorization = None,
      req_body = FormBody [(js ''file'', FormString (js ''hello''))]\<rparr>
   = (Inl TypeError, sample_world)"
    by (simp add: handleFetch_def verifyBasicAuth_open dispatch_def files_post_def request_formData_def js_def)
  from post u get str show ?thesis by simp
qed

section \<open>Retrieval only reads\<close>

text \<open>
  C10. A \<^verbatim>\<open>GET\<close> request whose path starts with \<^verbatim>\<open>/api/kv/\<close> or with
  \<^verbatim>\<open>/api/files/\<close> leaves the world as it was (the key-value store, the bucket and the
  database), whether the key is present or not, in the full variant and in the variant
  of \<^verbatim>\<open>src/index.ts\<close>.
\<close>

theorem retrieval_only_reads:
  assumes "req_method request = js ''GET''"
    and "startsWith (req_pathname request) (js ''/api/kv/'') \<or>
         startsWith (req_pathname request) (js ''/api/files/'')"
  shows "snd (handleFetch P e w request) = w \<and> snd (handleFetch_kv_d1 P e w request) = w"
  using handleFetch_cases(1,2) [of P e w request] dispatch_GET_world [OF assms(1), of P w]
  by auto

text \<open>A key that is present, and an object that is absent.\<close>

theorem retrieval_only_reads_witness:
  "snd (handleFetch sample_platform open_env (sample_world\<lparr>STORAGE := [js ''a'' \<mapsto> js ''1'']\<rparr>)
     \<lparr>req_method = js ''GET'', req_pathname = js ''/api/kv/a'',
      req_authorization = None, req_body = OtherBody\<rparr>)
   = sample_world\<lparr>STORAGE := [js ''a'' \<mapsto> js ''1'']\<rparr> \<and>
   snd (handleFetch sample_platform open_env sample_world
     \<lparr>req_method = js ''GET'', req_pathname = js ''/api/files/uploads/1-a.txt'',
      req_authorization = None, req_body = OtherBody\<rparr>)
   = sample_world"
proof -
  have 1: "startsWith (js ''/api/kv/a'') (js ''/api/kv/'') \<or> startsWith (js ''/api/kv/a'') (js ''/api/files/'')"
    by (simp add: js_def)
  have 2: "startsWith (js ''/api/files/uploads/1-a.txt'') (js ''/api/kv/'') \<or>
      startsWith (js ''/api/files/uploads/1-a.txt'') (js ''/api/files/'')"
    by (simp add: js_def)
  show ?thesis
    using retrieval_only_reads [of
        "\<lparr>req_method = js ''GET'', req_pathname = js ''/api/kv/a'',
          req_authorization = None, req_body = OtherBody\<rparr>"
        sample_platform open_env "sample_world\<lparr>STORAGE := [js ''a'' \<mapsto> js ''1'']\<rparr>"]
      retrieval_only_reads [of
        "\<lparr>req_method = js ''GET'', req_pathname = js ''/api/files/uploads/1-a.txt'',
          req_authorization = None, req_body = OtherBody\<rparr>"
        sample_platform open_env sample_world] 1 2
    by simp
qed

end
